theory Spec2Isabelle
  imports Main
begin

chapter \<open>The authentication gate, the message pipeline and the credential vault of CodeBot\<close>

text \<open>
  The definitions follow the JavaScript sources function by function and keep
  their names. State that the code mutates is passed in and returned; an
  awaited call that may reject, and everything that the platform or a remote
  service decides, is a parameter; an exception is a value. The theorems about
  the definitions come after all of them.
\<close>

section \<open>The in-memory user store (src/services/database-demo.js)\<close>

text \<open>
  The store keeps its users in a JavaScript \<^verbatim>\<open>Map\<close> from the user id to the user
  object. A \<^verbatim>\<open>Map\<close> iterates in insertion order and \<^verbatim>\<open>set\<close> on a key that is
  present replaces the value in place, so the model is an association list with
  these two operations. Fields that the code can leave \<^verbatim>\<open>undefined\<close> or \<^verbatim>\<open>null\<close>
  are options; a timestamp is the number of milliseconds since the epoch.

  A counter is a JavaScript number that holds an integer. The type of its
  values is \<^typ>\<open>int\<close> (or \<^typ>\<open>nat\<close>), and \<^verbatim>\<open>n++\<close> stores \<open>js_increment n\<close>: the sum
  \<open>n + 1\<close> rounded to the nearest double, ties to the even significand. From
  \<open>- (2 ^ 53)\<close> to \<open>2 ^ 53 - 1\<close> that is \<open>n + 1\<close>. From \<open>2 ^ 53\<close> on the doubles are
  the even numbers, then the multiples of 4, and so on: \<open>2 ^ 53 + 1\<close> is not a
  double and \<^verbatim>\<open>n++\<close> leaves \<open>2 ^ 53\<close> as it is.
\<close>

definition js_increment :: "int \<Rightarrow> int" where
  "js_increment n =
     (if - (2 ^ 53) \<le> n \<and> n < 2 ^ 53 then n + 1
      else if \<bar>n\<bar> < 2 ^ 54 then (if even (n div 2) then n else n + 2)
      else n)"

record user =
  uid :: string
  telegram_chat_id :: "int option"
  telegram_username :: "string option"
  name :: "string option"
  tier :: string
  message_quota :: int
  quota_reset_date :: int
  message_count :: int
  is_active :: "bool option"
  gemini_api_key_encrypted :: "string option"
  e2b_api_key_encrypted :: "string option"
  created_at :: int
  updated_at :: int

record usage_log =
  log_id :: string
  log_user_id :: "string option"
  operation_type :: "string option"
  log_success :: bool
  error_message :: "string option"

record DatabaseService =
  users :: "(string \<times> user) list"
  usageLogs :: "(string \<times> usage_log) list"
  userIdCounter :: nat
  usageLogIdCounter :: nat

fun map_set :: "('k \<times> 'v) list \<Rightarrow> 'k \<Rightarrow> 'v \<Rightarrow> ('k \<times> 'v) list" where
  "map_set [] k v = [(k, v)]"
| "map_set ((k', v') # m) k v = (if k' = k then (k, v) # m else (k', v') # map_set m k v)"

text \<open>Template literals print a counter in decimal.\<close>

fun string_of_nat :: "nat \<Rightarrow> string" where
  "string_of_nat n =
     (if n < 10 then [char_of (48 + n)]
      else string_of_nat (n div 10) @ [char_of (48 + n mod 10)])"

declare string_of_nat.simps [simp del]

definition findEntryByTelegramId :: "DatabaseService \<Rightarrow> int \<Rightarrow> (string \<times> user) option" where
  \<comment> \<open>the loop of \<^verbatim>\<open>findUserByTelegramId\<close>: the first entry, in insertion order, whose
      \<^verbatim>\<open>telegram_chat_id === telegramChatId\<close>\<close>
  "findEntryByTelegramId d telegramChatId =
     find (\<lambda>(k, u). telegram_chat_id u = Some telegramChatId) (users d)"

definition findUserByTelegramId :: "DatabaseService \<Rightarrow> int \<Rightarrow> user option" where
  "findUserByTelegramId d telegramChatId = map_option snd (findEntryByTelegramId d telegramChatId)"

record user_data =
  telegramChatId :: "int option"
  telegramUsername :: "string option"
  ud_name :: "string option"
  ud_tier :: "string option"

definition thirty_days :: int where
  "thirty_days = 30 * 24 * 60 * 60 * 1000"

definition next_user_id :: "DatabaseService \<Rightarrow> string" where
  "next_user_id d = ''user_'' @ string_of_nat (userIdCounter d)"

definition createUser :: "int \<Rightarrow> user_data \<Rightarrow> DatabaseService \<Rightarrow> user \<times> DatabaseService" where
  \<comment> \<open>\<^verbatim>\<open>now\<close> is the clock reading; \<^verbatim>\<open>tier = 'FREE'\<close> is the destructuring default\<close>
  "createUser now userData d =
     (let t = (case ud_tier userData of None \<Rightarrow> ''FREE'' | Some t \<Rightarrow> t);
          newUser = \<lparr> uid = next_user_id d,
                      telegram_chat_id = telegramChatId userData,
                      telegram_username = telegramUsername userData,
                      name = ud_name userData,
                      tier = t,
                      message_quota = (if t = ''FREE'' then 100 else if t = ''BASIC'' then 500 else 1000),
                      quota_reset_date = now + thirty_days,
                      message_count = 0,
                      is_active = Some True,
                      gemini_api_key_encrypted = None,
                      e2b_api_key_encrypted = None,
                      created_at = now,
                      updated_at = now \<rparr>
      in (newUser, d\<lparr> users := map_set (users d) (uid newUser) newUser,
                        userIdCounter := nat (js_increment (int (userIdCounter d))) \<rparr>))"

record quota =
  hasQuota :: bool
  remaining :: int
  total :: "int option"
  used :: "int option"

definition checkUserQuota :: "DatabaseService \<Rightarrow> string \<Rightarrow> quota \<times> DatabaseService" where
  \<comment> \<open>returns the answer and the store as the call leaves it\<close>
  "checkUserQuota d userId =
     (case map_of (users d) userId of
        None \<Rightarrow> (\<lparr> hasQuota = False, remaining = 0, total = None, used = None \<rparr>, d)
      | Some u \<Rightarrow>
          (let r = message_quota u - message_count u
           in (\<lparr> hasQuota = (r > 0), remaining = max 0 r,
                  total = Some (message_quota u), used = Some (message_count u) \<rparr>, d)))"

definition incrementMessageCount :: "int \<Rightarrow> DatabaseService \<Rightarrow> string \<Rightarrow> DatabaseService" where
  "incrementMessageCount now d userId =
     (case map_of (users d) userId of
        None \<Rightarrow> d
      | Some u \<Rightarrow> d\<lparr> users := map_set (users d) userId
                          (u\<lparr> message_count := js_increment (message_count u), updated_at := now \<rparr>) \<rparr>)"

text \<open>
  \<^verbatim>\<open>updateUser(userId, updateData)\<close> copies every field of \<^verbatim>\<open>updateData\<close> that is
  not \<^verbatim>\<open>undefined\<close>. The callers in the repository pass \<^verbatim>\<open>updated_at\<close>,
  \<^verbatim>\<open>is_active\<close>, \<^verbatim>\<open>tier\<close>, \<^verbatim>\<open>gemini_api_key\<close> and \<^verbatim>\<open>e2b_api_key\<close>; the last two
  are encrypted on the way in (a falsy value stores \<^verbatim>\<open>null\<close>). A field of
  \<^verbatim>\<open>update_data\<close> is \<open>None\<close> when the key is absent; for the two keys \<open>Some None\<close>
  is an explicit \<^verbatim>\<open>null\<close>. The parameter \<open>enc\<close> is \<^verbatim>\<open>encryptApiKey\<close>.
\<close>

record update_data =
  upd_updated_at :: "int option"
  upd_is_active :: "bool option"
  upd_tier :: "string option"
  upd_gemini_api_key :: "string option option"
  upd_e2b_api_key :: "string option option"

definition truthy :: "string option \<Rightarrow> bool" where
  \<comment> \<open>JavaScript truthiness of a string that may be \<^verbatim>\<open>null\<close>/\<^verbatim>\<open>undefined\<close>\<close>
  "truthy v = (case v of None \<Rightarrow> False | Some s \<Rightarrow> s \<noteq> [])"

definition encrypt_field :: "(string \<Rightarrow> string) \<Rightarrow> string option \<Rightarrow> string option" where
  "encrypt_field enc v = (if truthy v then map_option enc v else None)"

definition updateUser ::
  "(string \<Rightarrow> string) \<Rightarrow> int \<Rightarrow> DatabaseService \<Rightarrow> string \<Rightarrow> update_data \<Rightarrow> user option \<times> DatabaseService" where
  "updateUser enc now d userId updateData =
     (case map_of (users d) userId of
        None \<Rightarrow> (None, d)
      | Some u \<Rightarrow>
          (let u1 = (case upd_is_active updateData of None \<Rightarrow> u | Some b \<Rightarrow> u\<lparr> is_active := Some b \<rparr>);
               u2 = (case upd_tier updateData of None \<Rightarrow> u1 | Some t \<Rightarrow> u1\<lparr> tier := t \<rparr>);
               u3 = (case upd_gemini_api_key updateData of None \<Rightarrow> u2
                     | Some v \<Rightarrow> u2\<lparr> gemini_api_key_encrypted := encrypt_field enc v \<rparr>);
               u4 = (case upd_e2b_api_key updateData of None \<Rightarrow> u3
                     | Some v \<Rightarrow> u3\<lparr> e2b_api_key_encrypted := encrypt_field enc v \<rparr>);
               u5 = u4\<lparr> updated_at := now \<rparr>
           in (Some u5, d\<lparr> users := map_set (users d) userId u5 \<rparr>)))"

record usage_data =
  ud_user_id :: "string option"
  ud_action :: "string option"
  ud_success :: "bool option"
  ud_message :: "string option"

definition logUsage :: "DatabaseService \<Rightarrow> usage_data \<Rightarrow> usage_log \<times> DatabaseService" where
  \<comment> \<open>\<^verbatim>\<open>success = true\<close> and \<^verbatim>\<open>message = null\<close> are the destructuring defaults\<close>
  "logUsage d dat =
     (let newLog = \<lparr> log_id = ''log_'' @ string_of_nat (usageLogIdCounter d),
                     log_user_id = ud_user_id dat,
                     operation_type = ud_action dat,
                     log_success = (case ud_success dat of None \<Rightarrow> True | Some b \<Rightarrow> b),
                     error_message = ud_message dat \<rparr>
      in (newLog, d\<lparr> usageLogs := map_set (usageLogs d) (log_id newLog) newLog,
                       usageLogIdCounter := nat (js_increment (int (usageLogIdCounter d))) \<rparr>))"

text \<open>
  The constructor leaves an empty store with both counters at 1. \<^verbatim>\<open>createUser\<close>
  is the only function that adds a key to \<^verbatim>\<open>users\<close>, and the key is
  \<^verbatim>\<open>user_\<close> followed by the counter, so in a store that the service has built
  every id is \<^verbatim>\<open>user_i\<close> for an \<open>i\<close> below the counter.
\<close>

definition initial_store :: DatabaseService where
  "initial_store = \<lparr> users = [], usageLogs = [], userIdCounter = 1, usageLogIdCounter = 1 \<rparr>"

definition user_ids :: "nat \<Rightarrow> string list" where
  "user_ids n = map (\<lambda>i. ''user_'' @ string_of_nat i) [0..<n]"

definition ids_from_counter :: "DatabaseService \<Rightarrow> bool" where
  "ids_from_counter d \<longleftrightarrow> set (map fst (users d)) \<subseteq> set (user_ids (userIdCounter d))"

definition digits_value :: "string \<Rightarrow> nat" where
  \<comment> \<open>the number that a string of decimal digits prints\<close>
  "digits_value s = foldl (\<lambda>a c. 10 * a + (of_char c - 48)) 0 s"

section \<open>The SQL-backed store (src/services/database-direct.js)\<close>

text \<open>
  The table \<^verbatim>\<open>users\<close> is a list of rows. \<^verbatim>\<open>createUser\<close> runs one
  \<^verbatim>\<open>INSERT ... RETURNING *\<close>; the columns that the statement does not name take
  the defaults of the schema, which is not part of the sources and is the
  parameter \<open>defaults\<close>, as are the id drawn by \<^verbatim>\<open>gen_random_uuid()\<close> and the
  clock reading of \<^verbatim>\<open>NOW()\<close>. The definition is the row of a statement that
  succeeds.
\<close>

definition createUser_direct ::
  "user \<Rightarrow> string \<Rightarrow> int \<Rightarrow> user_data \<Rightarrow> user list \<Rightarrow> user \<times> user list" where
  "createUser_direct defaults uuid now userData tbl =
     (let t = (case ud_tier userData of None \<Rightarrow> ''FREE'' | Some t \<Rightarrow> t);
          row = defaults\<lparr> uid := uuid,
                          telegram_chat_id := telegramChatId userData,
                          telegram_username := telegramUsername userData,
                          name := ud_name userData,
                          tier := t,
                          message_quota := 100,
                          quota_reset_date := now + thirty_days \<rparr>
      in (row, tbl @ [row]))"

definition checkUserQuota_direct :: "user list \<Rightarrow> string \<Rightarrow> quota \<times> user list" where
  \<comment> \<open>\<^verbatim>\<open>SELECT message_count, message_quota, quota_reset_date FROM users WHERE id = $1\<close>\<close>
  "checkUserQuota_direct tbl userId =
     (case filter (\<lambda>u. uid u = userId) tbl of
        [] \<Rightarrow> (\<lparr> hasQuota = False, remaining = 0, total = None, used = None \<rparr>, tbl)
      | u # _ \<Rightarrow>
          (let r = message_quota u - message_count u
           in (\<lparr> hasQuota = (r > 0), remaining = max 0 r,
                  total = Some (message_quota u), used = Some (message_count u) \<rparr>, tbl)))"

section \<open>The authentication gate (middleware/auth.js)\<close>

text \<open>
  \<^verbatim>\<open>authenticate\<close> awaits the store and the chat transport inside
  \<^verbatim>\<open>try\<close>/\<^verbatim>\<open>catch\<close>. An awaited call either resolves or rejects; the parameter
  \<open>rejects\<close> says which calls reject (a store whose connection is down, a chat
  that refuses the message). A call that rejects has no effect. The world that
  the gate acts on is the store plus the log of what it did, in order: accounts
  created and notices delivered to the chat. The clock is read as \<open>now\<close>.
\<close>

datatype notice =
    Welcome int
  | CreateError
  | Deactivated
  | QuotaExceeded "int option" "int option"
  | AuthError

datatype call = FindUser | CreateUser | CheckQuota | UpdateUser | IncrementCount | Reply notice

datatype error = Rejected call

datatype event = Created string | Sent notice

record world =
  db :: DatabaseService
  events :: "event list"

record ctx =
  chat_id :: int
  from_username :: "string option"
  from_first_name :: "string option"

record authenticated =
  auth_user :: user
  remaining_quota :: int

definition reply :: "(call \<Rightarrow> bool) \<Rightarrow> notice \<Rightarrow> world \<Rightarrow> (error + unit) \<times> world" where
  "reply rejects n w =
     (if rejects (Reply n) then (Inl (Rejected (Reply n)), w)
      else (Inr (), w\<lparr> events := events w @ [Sent n] \<rparr>))"

definition display_name :: "ctx \<Rightarrow> string" where
  \<comment> \<open>\<^verbatim>\<open>ctx.from.username || ctx.from.first_name || 'Unknown'\<close>\<close>
  "display_name c =
     (if truthy (from_username c) then the (from_username c)
      else if truthy (from_first_name c) then the (from_first_name c)
      else ''Unknown'')"

definition handleNewUser ::
  "(call \<Rightarrow> bool) \<Rightarrow> int \<Rightarrow> int \<Rightarrow> string \<Rightarrow> world \<Rightarrow> (error + unit) \<times> world" where
  "handleNewUser rejects now chatId username w =
     (let attempt =
        (if rejects CreateUser then (Inl (Rejected CreateUser), w)
         else
           (let (newUser, d') =
                  createUser now \<lparr> telegramChatId = Some chatId, telegramUsername = None,
                                   ud_name = Some username, ud_tier = Some ''FREE'' \<rparr> (db w);
                w1 = w\<lparr> db := d', events := events w @ [Created (uid newUser)] \<rparr>
            in reply rejects (Welcome (message_quota newUser)) w1))
      in case attempt of
           (Inr _, w') \<Rightarrow> (Inr (), w')
         | (Inl _, w') \<Rightarrow> reply rejects CreateError w')"

definition touch :: "int \<Rightarrow> DatabaseService \<Rightarrow> string \<Rightarrow> DatabaseService" where
  \<comment> \<open>\<^verbatim>\<open>updateUser(user.id, { updated_at: new Date() })\<close>; no key is encrypted\<close>
  "touch now d userId =
     snd (updateUser (\<lambda>s. s) now d userId
            \<lparr> upd_updated_at = Some now, upd_is_active = None, upd_tier = None,
              upd_gemini_api_key = None, upd_e2b_api_key = None \<rparr>)"

text \<open>
  The steps after the lookup, run on the store as it is when they start. The
  user object found by the lookup is the one stored under the key \<open>k\<close>; the
  writes of step 4 go through \<^verbatim>\<open>user.id\<close>, and the object that is returned is
  read after them.
\<close>

definition authenticate_found ::
  "(call \<Rightarrow> bool) \<Rightarrow> int \<Rightarrow> string \<times> user \<Rightarrow> world \<Rightarrow> (error + authenticated option) \<times> world" where
  "authenticate_found rejects now entry w =
     (let (k, u) = entry in
      if is_active u = Some False then
        (case reply rejects Deactivated w of
           (Inl e, w') \<Rightarrow> (Inl e, w')
         | (Inr _, w') \<Rightarrow> (Inr None, w'))
      else if rejects CheckQuota then (Inl (Rejected CheckQuota), w)
      else
        (let q = fst (checkUserQuota (db w) (uid u)) in
         if \<not> hasQuota q then
           (case reply rejects (QuotaExceeded (used q) (total q)) w of
              (Inl e, w') \<Rightarrow> (Inl e, w')
            | (Inr _, w') \<Rightarrow> (Inr None, w'))
         else if rejects UpdateUser then (Inl (Rejected UpdateUser), w)
         else
           (let d1 = touch now (db w) (uid u);
                w1 = w\<lparr> db := d1 \<rparr>
            in if rejects IncrementCount then (Inl (Rejected IncrementCount), w1)
               else
                 (let d2 = incrementMessageCount now d1 (uid u);
                      w2 = w1\<lparr> db := d2 \<rparr>;
                      obj = (case map_of (users d2) k of None \<Rightarrow> u | Some u' \<Rightarrow> u')
                  in (Inr (Some \<lparr> auth_user = obj, remaining_quota = remaining q \<rparr>), w2)))))"

definition authenticate_try ::
  "(call \<Rightarrow> bool) \<Rightarrow> int \<Rightarrow> ctx \<Rightarrow> world \<Rightarrow> (error + authenticated option) \<times> world" where
  "authenticate_try rejects now c w =
     (if rejects FindUser then (Inl (Rejected FindUser), w)
      else
        (case findEntryByTelegramId (db w) (chat_id c) of
           None \<Rightarrow>
             (case handleNewUser rejects now (chat_id c) (display_name c) w of
                (Inl e, w') \<Rightarrow> (Inl e, w')
              | (Inr _, w') \<Rightarrow> (Inr None, w'))
         | Some entry \<Rightarrow> authenticate_found rejects now entry w))"

definition authenticate ::
  "(call \<Rightarrow> bool) \<Rightarrow> int \<Rightarrow> ctx \<Rightarrow> world \<Rightarrow> (error + authenticated option) \<times> world" where
  \<comment> \<open>the \<^verbatim>\<open>catch\<close> answers with the authentication-error notice and returns \<^verbatim>\<open>null\<close>;
      when that notice is refused too, the rejection leaves \<^verbatim>\<open>authenticate\<close>\<close>
  "authenticate rejects now c w =
     (case authenticate_try rejects now c w of
        (Inr r, w') \<Rightarrow> (Inr r, w')
      | (Inl _, w') \<Rightarrow>
          (case reply rejects AuthError w' of
             (Inl e, w'') \<Rightarrow> (Inl e, w'')
           | (Inr _, w'') \<Rightarrow> (Inr None, w'')))"

text \<open>The outcome PROCEED is the return of a user object; every other return is BLOCKED.\<close>

definition proceeds :: "(error + authenticated option) \<Rightarrow> bool" where
  "proceeds r = (case r of Inr (Some _) \<Rightarrow> True | _ \<Rightarrow> False)"

definition blocked :: "(error + authenticated option) \<Rightarrow> bool" where
  "blocked r = (r = Inr None)"

definition count_of :: "DatabaseService \<Rightarrow> string \<Rightarrow> int option" where
  "count_of d k = map_option message_count (map_of (users d) k)"

fun is_gate_event :: "event \<Rightarrow> bool" where
  "is_gate_event (Created _) = True"
| "is_gate_event (Sent Deactivated) = True"
| "is_gate_event (Sent (QuotaExceeded _ _)) = True"
| "is_gate_event _ = False"

definition gate_actions :: "world \<Rightarrow> (error + authenticated option) \<times> world \<Rightarrow> nat" where
  \<comment> \<open>how many of: create, deactivation notice, quota notice, proceed happened in
      a run from \<open>w\<close>\<close>
  "gate_actions w out =
     length (filter is_gate_event (drop (length (events w)) (events (snd out))))
       + (if proceeds (fst out) then 1 else 0)"

text \<open>
  A store with one account one message short of its quota, the chat it belongs
  to, and the plan in which every awaited call resolves.
\<close>

definition demo_user :: user where
  "demo_user = \<lparr> uid = ''user_1'', telegram_chat_id = Some 5221301620, telegram_username = None,
                  name = Some ''Prit'', tier = ''FREE'', message_quota = 100,
                  quota_reset_date = 2592000000, message_count = 99, is_active = None,
                  gemini_api_key_encrypted = None, e2b_api_key_encrypted = None,
                  created_at = 0, updated_at = 0 \<rparr>"

definition demo_db :: DatabaseService where
  "demo_db = \<lparr> users = [(''user_1'', demo_user)], usageLogs = [],
                userIdCounter = 2, usageLogIdCounter = 1 \<rparr>"

definition demo_world :: world where
  "demo_world = \<lparr> db = demo_db, events = [] \<rparr>"

definition demo_ctx :: ctx where
  "demo_ctx = \<lparr> chat_id = 5221301620, from_username = Some ''Prit'', from_first_name = None \<rparr>"

definition all_resolve :: "call \<Rightarrow> bool" where
  "all_resolve = (\<lambda>_. False)"

definition lookup_down :: "call \<Rightarrow> bool" where
  "lookup_down = (\<lambda>x. x = FindUser)"

definition inactive_user :: user where
  "inactive_user = demo_user\<lparr> is_active := Some False \<rparr>"

definition inactive_world :: world where
  "inactive_world = \<lparr> db = demo_db\<lparr> users := [(''user_1'', inactive_user)] \<rparr>, events = [] \<rparr>"

definition stranger_ctx :: ctx where
  "stranger_ctx = \<lparr> chat_id = 123, from_username = None, from_first_name = Some ''Ann'' \<rparr>"

definition emptied_world :: world where
  "emptied_world = \<lparr> db = demo_db\<lparr> users := [] \<rparr>, events = [] \<rparr>"

text \<open>The demo account with \<open>2 ^ 53\<close> messages counted and a quota two above that.\<close>

definition saturated_world :: world where
  "saturated_world =
     \<lparr> db = demo_db\<lparr> users := [(''user_1'', demo_user\<lparr> message_count := 2 ^ 53,
                                                        message_quota := 2 ^ 53 + 2 \<rparr>)] \<rparr>,
       events = [] \<rparr>"


section \<open>The sandbox executor (services/e2b.js)\<close>

text \<open>
  An exception is the message of its \<^verbatim>\<open>Error\<close> object. An operation is the object
  that the completion model sent; \<^verbatim>\<open>null\<close> is a possible element of the array.
  A template literal prints an absent value as \<^verbatim>\<open>undefined\<close>.
\<close>

datatype js_error = JsError string

fun message :: "js_error \<Rightarrow> string" where
  "message (JsError m) = m"

record operation =
  op_type :: "string option"
  op_command :: "string option"
  op_path :: "string option"
  op_content :: "string option"
  op_action :: "string option"
  op_url :: "string option"

datatype op_value = OpNull | OpObject operation

definition apostrophe :: string where
  "apostrophe = [CHR 0x27]"

definition show_opt :: "string option \<Rightarrow> string" where
  "show_opt v = (case v of None \<Rightarrow> ''undefined'' | Some s \<Rightarrow> s)"

record op_result =
  res_operation :: "string option"
  res_success :: bool
  res_subject :: "string option"
  res_output :: "string option"
  res_error :: "string option"

text \<open>
  The four executors answer with simulated results and catch their own
  exceptions. \<^verbatim>\<open>res_subject\<close> is the command, path or action of the result,
  \<^verbatim>\<open>res_output\<close> its \<^verbatim>\<open>stdout\<close>, \<^verbatim>\<open>message\<close>, \<^verbatim>\<open>content\<close> or \<^verbatim>\<open>response_data\<close>.
  \<^verbatim>\<open>writeFile\<close> reads \<^verbatim>\<open>content.length\<close>, which throws inside its \<^verbatim>\<open>try\<close> when the
  operation has no content.
\<close>

definition executeTerminalCommand :: "string option \<Rightarrow> string option \<Rightarrow> op_result" where
  "executeTerminalCommand sandboxId cmd =
     \<lparr> res_operation = Some ''terminal_command'', res_success = True, res_subject = cmd,
       res_output = Some (''Command executed successfully in sandbox '' @ show_opt sandboxId),
       res_error = None \<rparr>"

definition writeFile :: "string option \<Rightarrow> string option \<Rightarrow> string option \<Rightarrow> op_result" where
  "writeFile sandboxId filePath content =
     (case content of
        None \<Rightarrow> \<lparr> res_operation = Some ''write_file'', res_success = False, res_subject = filePath,
                   res_output = None,
                   res_error = Some (''Cannot read properties of undefined (reading '' @ apostrophe
                                       @ ''length'' @ apostrophe @ '')'') \<rparr>
      | Some _ \<Rightarrow> \<lparr> res_operation = Some ''write_file'', res_success = True, res_subject = filePath,
                     res_output = Some (''File '' @ show_opt filePath @ '' written successfully in sandbox ''
                                          @ show_opt sandboxId),
                     res_error = None \<rparr>)"

definition readFile :: "string option \<Rightarrow> string option \<Rightarrow> op_result" where
  "readFile sandboxId filePath =
     \<lparr> res_operation = Some ''read_file'', res_success = True, res_subject = filePath,
       res_output = Some (''Sample content for '' @ show_opt filePath @ '' in sandbox '' @ show_opt sandboxId),
       res_error = None \<rparr>"

definition executeBrowserAction :: "string option \<Rightarrow> operation \<Rightarrow> op_result" where
  "executeBrowserAction sandboxId opn =
     \<lparr> res_operation = Some ''browser_action'', res_success = True, res_subject = op_action opn,
       res_output = Some (''Browser action '' @ apostrophe @ show_opt (op_action opn) @ apostrophe
                            @ '' completed in sandbox '' @ show_opt sandboxId),
       res_error = None \<rparr>"

definition run_operation :: "string option \<Rightarrow> operation \<Rightarrow> op_result" where
  \<comment> \<open>the \<^verbatim>\<open>switch (operation.type)\<close>\<close>
  "run_operation sandboxId opn =
     (if op_type opn = Some ''terminal_command'' then executeTerminalCommand sandboxId (op_command opn)
      else if op_type opn = Some ''write_file'' then writeFile sandboxId (op_path opn) (op_content opn)
      else if op_type opn = Some ''read_file'' then readFile sandboxId (op_path opn)
      else if op_type opn = Some ''browser_action'' then executeBrowserAction sandboxId opn
      else \<lparr> res_operation = op_type opn, res_success = False, res_subject = None, res_output = None,
             res_error = Some (''Unknown operation type: '' @ show_opt (op_type opn)) \<rparr>)"

text \<open>
  The loop. Reading \<^verbatim>\<open>operation.type\<close> of \<^verbatim>\<open>null\<close> throws inside the inner
  \<^verbatim>\<open>try\<close>; the inner \<^verbatim>\<open>catch\<close> reads \<^verbatim>\<open>operation.type\<close> again for its log line,
  so the exception leaves the loop.
\<close>

fun run_operations :: "string option \<Rightarrow> op_value list \<Rightarrow> op_result list \<Rightarrow> js_error + op_result list" where
  "run_operations sandboxId [] results = Inr results"
| "run_operations sandboxId (OpNull # ops) results =
     Inl (JsError (''Cannot read properties of null (reading '' @ apostrophe @ ''type''
                     @ apostrophe @ '')''))"
| "run_operations sandboxId (OpObject opn # ops) results =
     run_operations sandboxId ops (results @ [run_operation sandboxId opn])"

text \<open>
  The remote service: \<^verbatim>\<open>post_sandbox\<close> is what the creation request does, a
  rejection with its message or a response with its \<^verbatim>\<open>sandboxID\<close> (which a
  response can lack); \<^verbatim>\<open>delete_resolves\<close> says whether the deletion request
  resolves. The log of requests records the API key each one carries.
\<close>

record sandbox_api =
  post_sandbox :: "string + string option"
  delete_resolves :: bool
  config_E2B_API_KEY :: "string option"

datatype sandbox_event =
    CreateRequest "string option"
  | DeleteRequest string "string option" bool

definition createSandbox :: "sandbox_api \<Rightarrow> string option \<Rightarrow> js_error + string option" where
  "createSandbox api apiKey =
     (case post_sandbox api of
        Inl m \<Rightarrow> Inl (JsError (''Failed to create sandbox environment: '' @ m))
      | Inr sandboxID \<Rightarrow> Inr sandboxID)"

definition deleteSandbox :: "sandbox_api \<Rightarrow> string \<Rightarrow> bool" where
  \<comment> \<open>a rejected request is logged and answered with \<^verbatim>\<open>false\<close>\<close>
  "deleteSandbox api sandboxId = delete_resolves api"

definition executeOperations ::
  "sandbox_api \<Rightarrow> op_value list \<Rightarrow> string option \<Rightarrow> (js_error + op_result list) \<times> sandbox_event list" where
  "executeOperations api operations apiKey =
     (let key = (if truthy apiKey then apiKey else config_E2B_API_KEY api) in
      case createSandbox api apiKey of
        Inl e \<Rightarrow> (Inl e, [CreateRequest key])
      | Inr sandboxId \<Rightarrow>
          (let outcome = run_operations sandboxId operations [];
               cleanup = (if truthy sandboxId
                          then [DeleteRequest (the sandboxId) (config_E2B_API_KEY api)
                                  (deleteSandbox api (the sandboxId))]
                          else [])
           in (outcome, CreateRequest key # cleanup)))"

fun is_create :: "sandbox_event \<Rightarrow> bool" where
  "is_create (CreateRequest _) = True"
| "is_create _ = False"

fun is_delete :: "sandbox_event \<Rightarrow> bool" where
  "is_delete (DeleteRequest _ _ _) = True"
| "is_delete _ = False"

definition demo_api :: sandbox_api where
  "demo_api = \<lparr> post_sandbox = Inr (Some ''sbx1''), delete_resolves = False,
                 config_E2B_API_KEY = Some ''e2b_default'' \<rparr>"

definition demo_ops :: "op_value list" where
  "demo_ops =
     [OpObject \<lparr> op_type = Some ''write_file'', op_command = None, op_path = Some ''hello.py'',
                  op_content = None, op_action = None, op_url = None \<rparr>,
      OpObject \<lparr> op_type = Some ''terminal_command'', op_command = Some ''python hello.py'',
                  op_path = None, op_content = None, op_action = None, op_url = None \<rparr>]"


section \<open>The credential cache (utils/cache.js) and its reader in processMessage\<close>

text \<open>
  The cache is a \<^verbatim>\<open>Map\<close> from a key string to a value with its expiry time; only
  lookups and single-key writes are used, so it is a partial function. The
  values modelled are the key objects of the \<^verbatim>\<open>api_keys\<close> entries: a JavaScript
  object is the list of its fields, a field holding a string or \<^verbatim>\<open>null\<close>.
\<close>

type_synonym keys_obj = "(string \<times> string option) list"

record cache_item =
  item_value :: keys_obj
  expiresAt :: int

type_synonym cache = "string \<Rightarrow> cache_item option"

fun join :: "string \<Rightarrow> string list \<Rightarrow> string" where
  "join sep [] = []"
| "join sep [p] = p"
| "join sep (p # ps) = p @ sep @ join sep ps"

definition generateKey :: "string \<Rightarrow> string list \<Rightarrow> string" where
  "generateKey prefix parts = prefix @ '':'' @ join '':'' parts"

definition cache_get :: "cache \<Rightarrow> string \<Rightarrow> int \<Rightarrow> keys_obj option \<times> cache" where
  "cache_get c key now =
     (case c key of
        None \<Rightarrow> (None, c)
      | Some item \<Rightarrow> if now > expiresAt item then (None, c(key := None))
                     else (Some (item_value item), c))"

definition cache_set :: "cache \<Rightarrow> string \<Rightarrow> keys_obj \<Rightarrow> int \<Rightarrow> int \<Rightarrow> cache" where
  "cache_set c key v ttl now = c(key \<mapsto> \<lparr> item_value = v, expiresAt = now + ttl \<rparr>)"

definition cache_delete :: "cache \<Rightarrow> string \<Rightarrow> cache" where
  "cache_delete c key = c(key := None)"

definition getCachedKeys :: "cache \<Rightarrow> string \<Rightarrow> int \<Rightarrow> keys_obj option \<times> cache" where
  "getCachedKeys c userId now = cache_get c (generateKey ''api_keys'' [userId]) now"

definition setCachedKeys :: "cache \<Rightarrow> string \<Rightarrow> keys_obj \<Rightarrow> int \<Rightarrow> cache" where
  "setCachedKeys c userId keys now =
     cache_set c (generateKey ''api_keys'' [userId]) keys (30 * 60 * 1000) now"

definition clearCachedKeys :: "cache \<Rightarrow> string \<Rightarrow> cache" where
  "clearCachedKeys c userId = cache_delete c (generateKey ''api_keys'' [userId])"

definition clearUserCache :: "cache \<Rightarrow> string \<Rightarrow> cache" where
  "clearUserCache c userId =
     foldl cache_delete c
       [generateKey ''api_keys'' [userId], generateKey ''quota'' [userId],
        generateKey ''rate_limit'' [userId], generateKey ''requests'' [userId]]"

definition getUserApiKeys ::
  "(string option \<Rightarrow> string option) \<Rightarrow> DatabaseService \<Rightarrow> string \<Rightarrow> keys_obj" where
  \<comment> \<open>\<^verbatim>\<open>getUserApiKeys\<close> of the store; \<open>decrypt\<close> is \<^verbatim>\<open>decryptApiKey\<close>\<close>
  "getUserApiKeys decrypt d userId =
     (case map_of (users d) userId of
        None \<Rightarrow> [(''geminiKey'', None), (''e2bKey'', None)]
      | Some u \<Rightarrow> [(''geminiKey'', decrypt (gemini_api_key_encrypted u)),
                    (''e2bKey'', decrypt (e2b_api_key_encrypted u))])"

record app =
  app_db :: DatabaseService
  app_cache :: cache

record api_keys =
  gemini :: "string option"
  e2b :: "string option"

datatype key_call = CacheGet | StoreGetKeys | CacheSet

record key_env =
  key_now :: int
  stored_key_decrypt :: "string option \<Rightarrow> string option"
  config_GEMINI_API_KEY :: "string option"
  config_E2B_KEY :: "string option"
  key_rejects :: "key_call \<Rightarrow> bool"

definition field_value :: "keys_obj \<Rightarrow> string \<Rightarrow> string option" where
  \<comment> \<open>the value of a field when it is a string; \<^verbatim>\<open>undefined\<close> and \<^verbatim>\<open>null\<close> are \<open>None\<close>\<close>
  "field_value obj f = (case map_of obj f of Some (Some s) \<Rightarrow> Some s | _ \<Rightarrow> None)"

definition merge_keys :: "api_keys \<Rightarrow> keys_obj \<Rightarrow> api_keys" where
  \<comment> \<open>\<^verbatim>\<open>if (cachedKeys.gemini) apiKeys.gemini = cachedKeys.gemini\<close>, and the same for \<^verbatim>\<open>e2b\<close>\<close>
  "merge_keys defaults obj =
     \<lparr> gemini = (if truthy (field_value obj ''gemini'') then field_value obj ''gemini''
                 else gemini defaults),
       e2b = (if truthy (field_value obj ''e2b'') then field_value obj ''e2b'' else e2b defaults) \<rparr>"

text \<open>
  The block of \<^verbatim>\<open>processMessage\<close> that chooses the API keys. It returns the keys
  chosen, the key object they were taken from (the cached one on a hit) and
  the application state. Its \<^verbatim>\<open>catch\<close> keeps the default keys.
\<close>

definition resolveApiKeys ::
  "key_env \<Rightarrow> user option \<Rightarrow> app \<Rightarrow> (api_keys \<times> keys_obj option) \<times> app" where
  "resolveApiKeys env usr a =
     (let defaults = \<lparr> gemini = config_GEMINI_API_KEY env, e2b = config_E2B_KEY env \<rparr> in
      case usr of
        None \<Rightarrow> ((defaults, None), a)
      | Some u \<Rightarrow>
          if key_rejects env CacheGet then ((defaults, None), a)
          else
            (let (cached, c1) = getCachedKeys (app_cache a) (uid u) (key_now env);
                 a1 = a\<lparr> app_cache := c1 \<rparr>
             in case cached of
                  Some obj \<Rightarrow> ((merge_keys defaults obj, Some obj), a1)
                | None \<Rightarrow>
                    if key_rejects env StoreGetKeys then ((defaults, None), a1)
                    else
                      (let dbKeys = getUserApiKeys (stored_key_decrypt env) (app_db a1) (uid u) in
                       if key_rejects env CacheSet then ((defaults, None), a1)
                       else ((merge_keys defaults dbKeys, Some dbKeys),
                             a1\<lparr> app_cache := setCachedKeys c1 (uid u) dbKeys (key_now env) \<rparr>))))"

section \<open>The key-management routes (routes/keys.js)\<close>

text \<open>
  The routes run on the application state, the store and the cache. The
  parameter \<open>route_encrypt\<close> is the \<^verbatim>\<open>encrypt\<close> of the routes file and
  \<open>store_encrypt\<close> the \<^verbatim>\<open>encryptApiKey\<close> that \<^verbatim>\<open>updateUser\<close> applies on top of it;
  \<open>route_rejects\<close> gives the message of the rejection of a store call that
  rejects. A response is its status and its \<^verbatim>\<open>message\<close> or \<^verbatim>\<open>error\<close> text.
\<close>

record keys_body =
  body_telegram_chat_id :: "int option"
  body_gemini_api_key :: "string option"
  body_e2b_api_key :: "string option"

datatype http_response = Response nat string

datatype route_call = RouteFind | RouteCreate | RouteUpdate | RouteLog

record route_env =
  route_now :: int
  route_encrypt :: "string \<Rightarrow> string"
  store_encrypt :: "string \<Rightarrow> string"
  route_rejects :: "route_call \<Rightarrow> string option"
  service_present :: bool

definition dquote :: string where
  "dquote = [CHR 0x22]"

definition startsWith :: "string \<Rightarrow> string \<Rightarrow> bool" where
  "startsWith s p = (take (length p) s = p)"

definition isValidGeminiApiKey :: "string option \<Rightarrow> bool" where
  "isValidGeminiApiKey key = (case key of None \<Rightarrow> False
     | Some k \<Rightarrow> k \<noteq> [] \<and> length k = 39 \<and> startsWith k ''AIza'')"

definition isValidE2BApiKey :: "string option \<Rightarrow> bool" where
  "isValidE2BApiKey key = (case key of None \<Rightarrow> False
     | Some k \<Rightarrow> k \<noteq> [] \<and> startsWith k ''e2b_'' \<and> length k = 45)"

definition log_failure :: "route_env \<Rightarrow> string \<Rightarrow> string \<Rightarrow> DatabaseService \<Rightarrow> DatabaseService" where
  \<comment> \<open>the \<^verbatim>\<open>logUsage\<close> of a route's \<^verbatim>\<open>catch\<close>, itself inside \<^verbatim>\<open>try\<close>/\<^verbatim>\<open>catch\<close>\<close>
  "log_failure env act m d =
     (if route_rejects env RouteLog \<noteq> None then d
      else snd (logUsage d \<lparr> ud_user_id = None, ud_action = Some act, ud_success = Some False,
                               ud_message = Some (''Error: '' @ m) \<rparr>))"

definition activate_try ::
  "route_env \<Rightarrow> int \<Rightarrow> string \<Rightarrow> string \<Rightarrow> DatabaseService \<Rightarrow> (string + unit) \<times> DatabaseService" where
  \<comment> \<open>the store calls of \<^verbatim>\<open>/activate\<close>; \<open>Inl\<close> is the message of the exception thrown,
      and the store is returned as the calls made so far have left it\<close>
  "activate_try env chat g e d =
     (case route_rejects env RouteFind of Some m \<Rightarrow> (Inl m, d) | None \<Rightarrow>
      (case (case findUserByTelegramId d chat of
               Some u \<Rightarrow> Inr (u, d)
             | None \<Rightarrow> (case route_rejects env RouteCreate of Some m \<Rightarrow> Inl m
                        | None \<Rightarrow> Inr (createUser (route_now env)
                                          \<lparr> telegramChatId = None, telegramUsername = None,
                                            ud_name = None, ud_tier = None \<rparr> d))) of
         Inl m \<Rightarrow> (Inl m, d)
       | Inr (u, d1) \<Rightarrow>
          (case route_rejects env RouteUpdate of Some m \<Rightarrow> (Inl m, d1) | None \<Rightarrow>
             (let d2 = snd (updateUser (store_encrypt env) (route_now env) d1 (uid u)
                              \<lparr> upd_updated_at = None, upd_is_active = None, upd_tier = Some ''BASIC'',
                                upd_gemini_api_key = Some (Some (route_encrypt env g)),
                                upd_e2b_api_key = Some (Some (route_encrypt env e)) \<rparr>)
              in case route_rejects env RouteLog of Some m \<Rightarrow> (Inl m, d2) | None \<Rightarrow>
                   (Inr (), snd (logUsage d2 \<lparr> ud_user_id = Some (uid u),
                                            ud_action = Some ''API_KEY_ACTIVATED'',
                                            ud_success = Some True,
                                            ud_message = Some ''User activated personal API keys and upgraded to BASIC tier'' \<rparr>))))))"

definition activate :: "route_env \<Rightarrow> keys_body \<Rightarrow> app \<Rightarrow> http_response \<times> app" where
  "activate env body a =
     (case body_telegram_chat_id body of
        None \<Rightarrow> (Response 400 ''telegram_chat_id is required'', a)
      | Some chat \<Rightarrow>
          if chat = 0 then (Response 400 ''telegram_chat_id is required'', a)
          else if \<not> truthy (body_gemini_api_key body) \<or> \<not> truthy (body_e2b_api_key body)
          then (Response 400 ''Both gemini_api_key and e2b_api_key are required'', a)
          else if \<not> isValidGeminiApiKey (body_gemini_api_key body)
          then (Response 400 (''Invalid Gemini API key format. Must be 39 characters long and start with ''
                          @ dquote @ ''AIza'' @ dquote), a)
          else if \<not> isValidE2BApiKey (body_e2b_api_key body)
          then (Response 400 (''Invalid E2B API key format. Must start with '' @ dquote @ ''e2b_'' @ dquote
                          @ '' and be 45 characters long''), a)
          else if \<not> service_present env then (Response 500 ''Database service not available'', a)
          else
            (case activate_try env chat (the (body_gemini_api_key body)) (the (body_e2b_api_key body))
                    (app_db a) of
               (Inr _, d') \<Rightarrow>
                 (Response 200 ''API keys activated successfully! Your account has been upgraded to BASIC tier.'',
                  a\<lparr> app_db := d' \<rparr>)
             | (Inl m, d') \<Rightarrow>
                 (Response 500 ''Failed to activate API keys. Please try again.'',
                  a\<lparr> app_db := log_failure env ''API_KEY_ACTIVATION_FAILED'' m d' \<rparr>)))"

definition revoke_try :: "route_env \<Rightarrow> user \<Rightarrow> DatabaseService \<Rightarrow> (string + unit) \<times> DatabaseService" where
  "revoke_try env u d =
     (case route_rejects env RouteUpdate of Some m \<Rightarrow> (Inl m, d) | None \<Rightarrow>
        (let d1 = snd (updateUser (store_encrypt env) (route_now env) d (uid u)
                         \<lparr> upd_updated_at = None, upd_is_active = None, upd_tier = Some ''FREE'',
                           upd_gemini_api_key = Some None, upd_e2b_api_key = Some None \<rparr>)
         in case route_rejects env RouteLog of Some m \<Rightarrow> (Inl m, d1) | None \<Rightarrow>
              (Inr (), snd (logUsage d1 \<lparr> ud_user_id = Some (uid u),
                                       ud_action = Some ''API_KEYS_REVOKED'',
                                       ud_success = Some True,
                                       ud_message = Some ''User revoked their personal API keys and downgraded to FREE tier'' \<rparr>))))"

definition revoke :: "route_env \<Rightarrow> keys_body \<Rightarrow> app \<Rightarrow> http_response \<times> app" where
  "revoke env body a =
     (case body_telegram_chat_id body of
        None \<Rightarrow> (Response 400 ''telegram_chat_id is required'', a)
      | Some chat \<Rightarrow>
          if chat = 0 then (Response 400 ''telegram_chat_id is required'', a)
          else if \<not> service_present env then (Response 500 ''Database service not available'', a)
          else
            (case route_rejects env RouteFind of
               Some m \<Rightarrow> (Response 500 ''Failed to revoke API keys. Please try again.'',
                          a\<lparr> app_db := log_failure env ''API_KEY_REVOCATION_FAILED'' m (app_db a) \<rparr>)
             | None \<Rightarrow>
                 (case findUserByTelegramId (app_db a) chat of
                    None \<Rightarrow> (Response 404 ''User not found'', a)
                  | Some u \<Rightarrow>
                      (case revoke_try env u (app_db a) of
                         (Inr _, d') \<Rightarrow>
                           (Response 200 ''API keys revoked successfully. Your account has been downgraded to FREE tier.'',
                            a\<lparr> app_db := d' \<rparr>)
                       | (Inl m, d') \<Rightarrow>
                           (Response 500 ''Failed to revoke API keys. Please try again.'',
                            a\<lparr> app_db := log_failure env ''API_KEY_REVOCATION_FAILED'' m d' \<rparr>)))))"

text \<open>
  A scenario: a user with personal keys stored, a cipher that only tags its
  input (standing in for the real one), a message handled at time 0, a
  revocation at time 1000 and a second message at time 2000.
\<close>

definition tag_encrypt :: "string \<Rightarrow> string" where
  "tag_encrypt s = ''enc:'' @ s"

definition tag_decrypt :: "string option \<Rightarrow> string option" where
  "tag_decrypt v = (case v of None \<Rightarrow> None
     | Some s \<Rightarrow> if s = [] then None else if startsWith s ''enc:'' then Some (drop 4 s) else None)"

definition keyed_user :: user where
  "keyed_user = demo_user\<lparr> tier := ''BASIC'',
                           gemini_api_key_encrypted := Some ''enc:AIzaPERSONAL'',
                           e2b_api_key_encrypted := Some ''enc:e2b_personal'' \<rparr>"

definition keyed_app :: app where
  "keyed_app = \<lparr> app_db = demo_db\<lparr> users := [(''user_1'', keyed_user)] \<rparr>, app_cache = Map.empty \<rparr>"

definition key_env_at :: "int \<Rightarrow> key_env" where
  "key_env_at t = \<lparr> key_now = t, stored_key_decrypt = tag_decrypt,
                    config_GEMINI_API_KEY = Some ''AIzaDEFAULT'', config_E2B_KEY = Some ''e2b_default'',
                    key_rejects = (\<lambda>_. False) \<rparr>"

definition route_env_at :: "int \<Rightarrow> route_env" where
  "route_env_at t = \<lparr> route_now = t, route_encrypt = tag_encrypt, store_encrypt = tag_encrypt,
                      route_rejects = (\<lambda>_. None), service_present = True \<rparr>"

definition revoke_body :: keys_body where
  "revoke_body = \<lparr> body_telegram_chat_id = Some 5221301620, body_gemini_api_key = None,
                   body_e2b_api_key = None \<rparr>"

definition app_after_message :: app where
  "app_after_message = snd (resolveApiKeys (key_env_at 0) (Some keyed_user) keyed_app)"

definition app_after_revoke :: app where
  "app_after_revoke = snd (revoke (route_env_at 1000) revoke_body app_after_message)"


section \<open>The message pipeline (services/messageProcessor.js)\<close>

text \<open>
  \<^verbatim>\<open>validateInput\<close> throws on a message of more than 8000 characters, on a
  message of white space only and on a match of one of five regular
  expressions. Text is a list of 8-bit characters; \<^verbatim>\<open>\s\<close> and \<^verbatim>\<open>trim\<close> use the
  white space of that range, and the flag \<^verbatim>\<open>i\<close> folds the case of ASCII letters.
\<close>

definition is_space :: "char \<Rightarrow> bool" where
  "is_space c = (of_char c \<in> {9, 10, 11, 12, 13, 32, 160 :: nat})"

definition to_lower :: "char \<Rightarrow> char" where
  "to_lower c = (let n = (of_char c :: nat) in if 65 \<le> n \<and> n \<le> 90 then char_of (n + 32) else c)"

datatype rx_item = Lit string | Spaces1 | Spaces0

fun match_here :: "rx_item list \<Rightarrow> string \<Rightarrow> bool" where
  "match_here [] s = True"
| "match_here (Lit l # r) s =
     (length l \<le> length s \<and> map to_lower (take (length l) s) = map to_lower l
      \<and> match_here r (drop (length l) s))"
| "match_here (Spaces1 # r) [] = False"
| "match_here (Spaces1 # r) (c # cs) = (is_space c \<and> match_here (Spaces0 # r) cs)"
| "match_here (Spaces0 # r) [] = match_here r []"
| "match_here (Spaces0 # r) (c # cs) =
     (match_here r (c # cs) \<or> (is_space c \<and> match_here (Spaces0 # r) cs))"

fun rx_test :: "rx_item list \<Rightarrow> string \<Rightarrow> bool" where
  "rx_test p [] = match_here p []"
| "rx_test p (c # cs) = (match_here p (c # cs) \<or> rx_test p cs)"

definition dangerousPatterns :: "rx_item list list" where
  "dangerousPatterns =
     [[Lit ''rm'', Spaces1, Lit ''-rf'', Spaces1, Lit ''/''],
      [Lit ''format'', Spaces1, Lit ''c:''],
      [Lit ''../../''],
      [Lit ''eval'', Spaces0, Lit ''(''],
      [Lit ''exec'', Spaces0, Lit ''('']]"

definition validateInput :: "string \<Rightarrow> js_error + unit" where
  "validateInput messageText =
     (if length messageText > 8000
      then Inl (JsError ''Message is too long. Please keep requests under 8000 characters.'')
      else if \<forall>c \<in> set messageText. is_space c
      then Inl (JsError ''Empty message. Please provide a valid request.'')
      else if \<exists>p \<in> set dangerousPatterns. rx_test p messageText
      then Inl (JsError ''Potentially dangerous command detected. Please rephrase your request.'')
      else Inr ())"

text \<open>
  The store that the pipeline writes to is named by its calls, with their
  positional arguments; the completion provider is named by its answers, the
  first and, when a second round is made, the second. \<open>pm_rejects\<close> gives the
  exception of a store call that rejects.
\<close>

record gemini_response =
  response :: string
  operations :: "op_value list option"
  status :: "string option"
  tokensUsed :: "nat option"

datatype store_call =
    CreateConversation string string
  | LogUsage string string "nat option" bool "string option"
  | SaveMessage string string string "nat option"

datatype pm_call = GetConversation | CreateConv | LogGemini | SaveUserMessage | LogE2B
  | SaveAssistantMessage | LogProcessingError

record pm_env =
  keys_env :: key_env
  pm_rejects :: "pm_call \<Rightarrow> bool"
  stored_conversation :: "string option"
  new_conversation_id :: string
  converse :: "nat \<Rightarrow> js_error + gemini_response"
  sandbox :: sandbox_api

record pm_state =
  pm_app :: app
  store_calls :: "store_call list"
  sandbox_log :: "sandbox_event list"

definition attempt :: "pm_env \<Rightarrow> pm_call \<Rightarrow> store_call \<Rightarrow> pm_state \<Rightarrow> pm_state" where
  \<comment> \<open>\<^verbatim>\<open>try { await store call } catch { log }\<close>\<close>
  "attempt env c ev st = (if pm_rejects env c then st else st\<lparr> store_calls := store_calls st @ [ev] \<rparr>)"

definition thread_id :: "int \<Rightarrow> string" where
  \<comment> \<open>\<^verbatim>\<open>`telegram_${chatId}`\<close>\<close>
  "thread_id chatId =
     ''telegram_'' @ (if chatId < 0 then ''-'' else []) @ string_of_nat (nat \<bar>chatId\<bar>)"

definition find_conversation :: "pm_env \<Rightarrow> int \<Rightarrow> user option \<Rightarrow> pm_state \<Rightarrow> string option \<times> pm_state" where
  \<comment> \<open>the conversation id in use, \<open>None\<close> when there is no user or the store failed\<close>
  "find_conversation env chatId usr st =
     (case usr of
        None \<Rightarrow> (None, st)
      | Some u \<Rightarrow>
          if pm_rejects env GetConversation then (None, st)
          else (case stored_conversation env of
                  Some cid \<Rightarrow> (Some cid, st)
                | None \<Rightarrow>
                    if pm_rejects env CreateConv then (None, st)
                    else (Some (new_conversation_id env),
                          st\<lparr> store_calls := store_calls st
                                 @ [CreateConversation (uid u) (thread_id chatId)] \<rparr>)))"

definition save_assistant :: "pm_env \<Rightarrow> string option \<Rightarrow> string \<Rightarrow> nat option \<Rightarrow> pm_state \<Rightarrow> pm_state" where
  "save_assistant env conv text tokens st =
     (case conv of None \<Rightarrow> st
      | Some cid \<Rightarrow> attempt env SaveAssistantMessage (SaveMessage cid ''ASSISTANT'' text tokens) st)"

definition or_else :: "string \<Rightarrow> string \<Rightarrow> string" where
  \<comment> \<open>\<^verbatim>\<open>a || b\<close> on strings\<close>
  "or_else a b = (if a \<noteq> [] then a else b)"

definition log_gemini :: "pm_env \<Rightarrow> user option \<Rightarrow> gemini_response \<Rightarrow> pm_state \<Rightarrow> pm_state" where
  \<comment> \<open>\<^verbatim>\<open>if (user && geminiResponse.tokensUsed)\<close>\<close>
  "log_gemini env usr g st =
     (case (usr, tokensUsed g) of
        (Some u, Some t) \<Rightarrow>
          if t = 0 then st
          else attempt env LogGemini (LogUsage (uid u) ''gemini_request'' (Some t) True None) st
      | _ \<Rightarrow> st)"

definition save_user :: "pm_env \<Rightarrow> string option \<Rightarrow> string \<Rightarrow> nat option \<Rightarrow> pm_state \<Rightarrow> pm_state" where
  "save_user env conv text tokens st =
     (case conv of None \<Rightarrow> st
      | Some cid \<Rightarrow> attempt env SaveUserMessage (SaveMessage cid ''USER'' text tokens) st)"

definition log_e2b :: "pm_env \<Rightarrow> user option \<Rightarrow> op_result list \<Rightarrow> pm_state \<Rightarrow> pm_state" where
  "log_e2b env usr results st =
     (let successCount = length (filter res_success results) in
      case usr of
        None \<Rightarrow> st
      | Some u \<Rightarrow> attempt env LogE2B
                    (LogUsage (uid u) ''e2b_operations'' None (successCount = length results)
                       (if successCount < length results then Some ''Some operations failed'' else None))
                    st)"

definition after_operations ::
  "pm_env \<Rightarrow> string option \<Rightarrow> user option \<Rightarrow> gemini_response \<Rightarrow> op_result list \<Rightarrow> pm_state
     \<Rightarrow> (js_error + string) \<times> pm_state" where
  \<comment> \<open>from the usage entry of the batch to the return of the reply\<close>
  "after_operations env conv usr g results st =
     (let st1 = log_e2b env usr results st in
      if status g = Some ''in_progress''
      then (case converse env 2 of
              Inl e \<Rightarrow> (Inl e, st1)
            | Inr final \<Rightarrow>
                (Inr (or_else (response final) (response g)),
                 save_assistant env conv (or_else (response final) (response g)) (tokensUsed final) st1))
      else (Inr (response g), save_assistant env conv (response g) (tokensUsed g) st1))"

definition after_answer ::
  "pm_env \<Rightarrow> string option \<Rightarrow> user option \<Rightarrow> api_keys \<Rightarrow> string \<Rightarrow> gemini_response \<Rightarrow> pm_state
     \<Rightarrow> (js_error + string) \<times> pm_state" where
  \<comment> \<open>from the first answer of the provider on\<close>
  "after_answer env conv usr apiKeys messageText g st =
     (let st1 = save_user env conv messageText (tokensUsed g) (log_gemini env usr g st) in
      case operations g of
        None \<Rightarrow> (Inr (response g), save_assistant env conv (response g) (tokensUsed g) st1)
      | Some ops \<Rightarrow>
          if ops = [] then (Inr (response g), save_assistant env conv (response g) (tokensUsed g) st1)
          else
            (let (outcome, reqs) = executeOperations (sandbox env) ops (e2b apiKeys);
                 st2 = st1\<lparr> sandbox_log := sandbox_log st1 @ reqs \<rparr>
             in case outcome of
                  Inl e \<Rightarrow> (Inl e, st2)
                | Inr results \<Rightarrow> after_operations env conv usr g results st2))"

definition processMessage_try ::
  "pm_env \<Rightarrow> int \<Rightarrow> string \<Rightarrow> user option \<Rightarrow> pm_state \<Rightarrow> (js_error + string) \<times> pm_state" where
  "processMessage_try env chatId messageText usr st0 =
     (let (conv, st1) = find_conversation env chatId usr st0 in
      case validateInput messageText of
        Inl e \<Rightarrow> (Inl e, st1)
      | Inr _ \<Rightarrow>
          (let ((apiKeys, _), a2) = resolveApiKeys (keys_env env) usr (pm_app st1);
               st2 = st1\<lparr> pm_app := a2 \<rparr>
           in case converse env 1 of
                Inl e \<Rightarrow> (Inl e, st2)
              | Inr g \<Rightarrow> after_answer env conv usr apiKeys messageText g st2))"

definition error_mark :: string where
  \<comment> \<open>the bytes before the text of the error reply in the source file\<close>
  "error_mark = [CHR 0xC3, CHR 0xA2, CHR 0xC5, CHR 0x92]"

definition error_reply :: "string \<Rightarrow> string" where
  "error_reply m =
     error_mark @ '' I encountered an error while processing your request: '' @ m
       @ [CHR 0x0A, CHR 0x0A]
       @ ''Please try rephrasing your question or contact support if the issue persists.''"

definition processMessage ::
  "pm_env \<Rightarrow> int \<Rightarrow> string \<Rightarrow> user option \<Rightarrow> pm_state \<Rightarrow> string \<times> pm_state" where
  "processMessage env chatId messageText usr st =
     (case processMessage_try env chatId messageText usr st of
        (Inr text, st') \<Rightarrow> (text, st')
      | (Inl e, st') \<Rightarrow>
          (error_reply (message e),
           (case usr of None \<Rightarrow> st'
            | Some u \<Rightarrow> attempt env LogProcessingError
                          (LogUsage (uid u) ''message_processing_error'' None False (Some (message e))) st')))"

text \<open>
  A scenario: the completion provider asks for one command to be run and the
  request that creates the sandbox is refused by the network.
\<close>

definition run_command :: op_value where
  "run_command = OpObject \<lparr> op_type = Some ''terminal_command'', op_command = Some ''python hello.py'',
                            op_path = None, op_content = None, op_action = None, op_url = None \<rparr>"

definition unreachable_env :: pm_env where
  "unreachable_env =
     \<lparr> keys_env = key_env_at 0, pm_rejects = (\<lambda>_. False), stored_conversation = Some ''conv_1'',
       new_conversation_id = ''conv_2'',
       converse = (\<lambda>_. Inr \<lparr> response = ''Running it.'', operations = Some [run_command],
                              status = Some ''in_progress'', tokensUsed = Some 12 \<rparr>),
       sandbox = \<lparr> post_sandbox = Inl ''connect ECONNREFUSED 10.0.0.7:443'', delete_resolves = True,
                   config_E2B_API_KEY = Some ''e2b_default'' \<rparr> \<rparr>"

definition idle_state :: pm_state where
  "idle_state = \<lparr> pm_app = keyed_app, store_calls = [], sandbox_log = [] \<rparr>"


section \<open>The credential vault (encryptApiKey and decryptApiKey of the stores)\<close>






fun split :: "char \<Rightarrow> string \<Rightarrow> string list" where
  \<comment> \<open>\<^verbatim>\<open>s.split(sep)\<close> for a separator of one character\<close>
  "split sep [] = [[]]"
| "split sep (c # cs) =
     (if c = sep then [] # split sep cs
      else (case split sep cs of p # ps \<Rightarrow> (c # p) # ps | [] \<Rightarrow> [[c]]))"

















section \<open>Facts about the store\<close>

lemma map_of_map_set: "map_of (map_set m k v) k' = (if k' = k then Some v else map_of m k')"
  by (induction m k v rule: map_set.induct) auto

lemma find_map_set_new:
  "find P m = None \<Longrightarrow> P (k, v) \<Longrightarrow> find P (map_set m k v) = Some (k, v)"
  by (induction m k v rule: map_set.induct) (auto split: if_splits)

lemma count_of_incr:
  "count_of (incrementMessageCount now d i) k =
     (if k = i then map_option js_increment (count_of d k) else count_of d k)"
  by (auto simp: incrementMessageCount_def count_of_def map_of_map_set split: option.splits)

lemma count_of_update:
  "count_of (snd (updateUser enc now d i upd)) k = count_of d k"
  by (auto simp: updateUser_def count_of_def map_of_map_set Let_def split: option.splits)

lemma count_of_touch: "count_of (touch now d i) k = count_of d k"
  by (simp add: touch_def count_of_update)

lemma count_of_create:
  "count_of (snd (createUser now dat d)) k = (if k = next_user_id d then Some 0 else count_of d k)"
  by (auto simp: createUser_def count_of_def map_of_map_set Let_def)

lemma hasQuota_iff:
  "hasQuota (fst (checkUserQuota d i)) \<longleftrightarrow>
     (\<exists>u. map_of (users d) i = Some u \<and> 0 < message_quota u - message_count u)"
  by (simp add: checkUserQuota_def Let_def split: option.splits)

lemma find_user_entry:
  "findUserByTelegramId d i = None \<longleftrightarrow> findEntryByTelegramId d i = None"
  by (simp add: findUserByTelegramId_def)

lemma js_increment_safe: "- (2 ^ 53) \<le> n \<Longrightarrow> n < 2 ^ 53 \<Longrightarrow> js_increment n = n + 1"
  by (simp add: js_increment_def)

lemma js_increment_counter: "n < 2 ^ 53 \<Longrightarrow> nat (js_increment (int n)) = Suc n"
  by (simp add: js_increment_def)

section \<open>The ids of the store\<close>

lemma digits_value_snoc: "digits_value (s @ [c]) = 10 * digits_value s + (of_char c - 48)"
  by (simp add: digits_value_def)

lemma digits_value_string_of_nat: "digits_value (string_of_nat n) = n"
proof (induction n rule: string_of_nat.induct)
  case (1 n)
  show ?case
  proof (cases "n < 10")
    case True
    then show ?thesis
      by (subst string_of_nat.simps) (simp add: digits_value_def)
  next
    case False
    have m: "(48 + n mod 10) mod 256 = 48 + n mod 10"
      by (rule mod_less) (simp add: less_le_trans [OF add_strict_left_mono [OF mod_less_divisor]])
    from False 1 have "digits_value (string_of_nat (n div 10)) = n div 10"
      by simp
    with False show ?thesis
      by (subst string_of_nat.simps) (simp add: digits_value_snoc m)
  qed
qed

lemma string_of_nat_inj: "string_of_nat m = string_of_nat n \<Longrightarrow> m = n"
  by (metis digits_value_string_of_nat)

lemma keys_map_set: "fst ` set (map_set m k v) = insert k (fst ` set m)"
  by (induction m k v rule: map_set.induct) auto

lemma keys_map_set_present: "map_of m k = Some u \<Longrightarrow> fst ` set (map_set m k v) = fst ` set m"
  by (auto simp: keys_map_set dest: map_of_SomeD intro: rev_image_eqI)

lemma next_user_id_fresh:
  assumes "ids_from_counter d"
  shows "map_of (users d) (next_user_id d) = None"
proof (rule ccontr)
  assume "map_of (users d) (next_user_id d) \<noteq> None"
  then have "next_user_id d \<in> fst ` set (users d)"
    by (simp add: map_of_eq_None_iff)
  with assms obtain i where "i < userIdCounter d"
      and "''user_'' @ string_of_nat (userIdCounter d) = ''user_'' @ string_of_nat i"
    by (auto simp: ids_from_counter_def user_ids_def next_user_id_def)
  then show False
    by (auto dest: string_of_nat_inj)
qed

lemma ids_initial_store: "ids_from_counter initial_store"
  by (simp add: ids_from_counter_def initial_store_def)

lemma ids_createUser:
  assumes "ids_from_counter d" and "userIdCounter d < 2 ^ 53"
  shows "ids_from_counter (snd (createUser now dat d))"
  using assms
  by (auto simp: ids_from_counter_def user_ids_def createUser_def Let_def keys_map_set
      js_increment_counter next_user_id_def less_Suc_eq)

lemma ids_incrementMessageCount:
  "ids_from_counter d \<Longrightarrow> ids_from_counter (incrementMessageCount now d i)"
  by (auto simp: ids_from_counter_def incrementMessageCount_def keys_map_set_present
      split: option.splits)

lemma ids_updateUser:
  "ids_from_counter d \<Longrightarrow> ids_from_counter (snd (updateUser enc now d i upd))"
  by (auto simp: ids_from_counter_def updateUser_def Let_def keys_map_set_present
      split: option.splits)

lemma ids_touch: "ids_from_counter d \<Longrightarrow> ids_from_counter (touch now d i)"
  by (simp add: touch_def ids_updateUser)

lemma ids_logUsage: "ids_from_counter d \<Longrightarrow> ids_from_counter (snd (logUsage d dat))"
  by (simp add: ids_from_counter_def logUsage_def Let_def)

section \<open>The paths of the gate\<close>

text \<open>
  Each lemma reads one component of the outcome of a function of the gate off
  the conditions that the code tests, in the order in which it tests them.
\<close>

lemma proceeds_simps [simp]:
  "proceeds (Inl e) = False" "proceeds (Inr None) = False" "proceeds (Inr (Some a)) = True"
  "proceeds (map_sum id (\<lambda>_. None) x) = False"
  by (simp_all add: proceeds_def map_sum_def split: sum.splits)

lemma found_proceeds_iff:
  "proceeds (fst (authenticate_found rejects now (k, u) w)) \<longleftrightarrow>
     is_active u \<noteq> Some False \<and> \<not> rejects CheckQuota
     \<and> hasQuota (fst (checkUserQuota (db w) (uid u)))
     \<and> \<not> rejects UpdateUser \<and> \<not> rejects IncrementCount"
  by (simp add: authenticate_found_def Let_def reply_def split: prod.splits sum.splits)

lemma found_db:
  "db (snd (authenticate_found rejects now (k, u) w)) =
     (if is_active u \<noteq> Some False \<and> \<not> rejects CheckQuota
         \<and> hasQuota (fst (checkUserQuota (db w) (uid u))) \<and> \<not> rejects UpdateUser
      then (if rejects IncrementCount then touch now (db w) (uid u)
            else incrementMessageCount now (touch now (db w) (uid u)) (uid u))
      else db w)"
  by (simp add: authenticate_found_def Let_def reply_def split: prod.splits sum.splits)

lemma found_events:
  "events (snd (authenticate_found rejects now (k, u) w)) = events w @
     (if is_active u = Some False then (if rejects (Reply Deactivated) then [] else [Sent Deactivated])
      else if \<not> rejects CheckQuota \<and> \<not> hasQuota (fst (checkUserQuota (db w) (uid u)))
      then (let q = fst (checkUserQuota (db w) (uid u)) in
            if rejects (Reply (QuotaExceeded (used q) (total q))) then []
            else [Sent (QuotaExceeded (used q) (total q))])
      else [])"
  by (simp add: authenticate_found_def Let_def reply_def split: prod.splits sum.splits)

lemma found_result:
  "fst (authenticate_found rejects now (k, u) w) =
     (let q = fst (checkUserQuota (db w) (uid u)) in
      if is_active u = Some False
      then (if rejects (Reply Deactivated) then Inl (Rejected (Reply Deactivated)) else Inr None)
      else if rejects CheckQuota then Inl (Rejected CheckQuota)
      else if \<not> hasQuota q
      then (if rejects (Reply (QuotaExceeded (used q) (total q)))
            then Inl (Rejected (Reply (QuotaExceeded (used q) (total q)))) else Inr None)
      else if rejects UpdateUser then Inl (Rejected UpdateUser)
      else if rejects IncrementCount then Inl (Rejected IncrementCount)
      else Inr (Some \<lparr> auth_user =
                  (case map_of (users (incrementMessageCount now (touch now (db w) (uid u)) (uid u))) k of
                     None \<Rightarrow> u | Some u' \<Rightarrow> u'),
                 remaining_quota = remaining q \<rparr>))"
  by (simp add: authenticate_found_def Let_def reply_def split: prod.splits sum.splits)

lemma new_user_db:
  "db (snd (handleNewUser rejects now chatId username w)) =
     (if rejects CreateUser then db w
      else snd (createUser now \<lparr> telegramChatId = Some chatId, telegramUsername = None,
                                   ud_name = Some username, ud_tier = Some ''FREE'' \<rparr> (db w)))"
  by (simp add: handleNewUser_def Let_def reply_def split: prod.splits sum.splits)

lemma new_user_events:
  "events (snd (handleNewUser rejects now chatId username w)) = events w @
     (if rejects CreateUser then (if rejects (Reply CreateError) then [] else [Sent CreateError])
      else Created (next_user_id (db w)) #
           (if rejects (Reply (Welcome 100))
            then (if rejects (Reply CreateError) then [] else [Sent CreateError])
            else [Sent (Welcome 100)]))"
  by (simp add: handleNewUser_def Let_def reply_def createUser_def split: prod.splits sum.splits)

lemma new_user_result:
  "fst (handleNewUser rejects now chatId username w) =
     (if (rejects CreateUser \<or> rejects (Reply (Welcome 100))) \<and> rejects (Reply CreateError)
      then Inl (Rejected (Reply CreateError)) else Inr ())"
  by (simp add: handleNewUser_def Let_def reply_def createUser_def split: prod.splits sum.splits)

lemma try_unfold:
  "authenticate_try rejects now c w =
     (if rejects FindUser then (Inl (Rejected FindUser), w)
      else case findEntryByTelegramId (db w) (chat_id c) of
             None \<Rightarrow> (map_sum id (\<lambda>_. None) (fst (handleNewUser rejects now (chat_id c) (display_name c) w)),
                       snd (handleNewUser rejects now (chat_id c) (display_name c) w))
           | Some e \<Rightarrow> authenticate_found rejects now e w)"
  by (simp add: authenticate_try_def split: prod.splits sum.splits option.splits)

lemma auth_proceeds:
  "proceeds (fst (authenticate rejects now c w)) = proceeds (fst (authenticate_try rejects now c w))"
  by (simp add: authenticate_def reply_def proceeds_def split: prod.splits sum.splits option.splits)

lemma auth_db: "db (snd (authenticate rejects now c w)) = db (snd (authenticate_try rejects now c w))"
  by (simp add: authenticate_def reply_def split: prod.splits sum.splits)

lemma auth_events:
  "events (snd (authenticate rejects now c w)) = events (snd (authenticate_try rejects now c w)) @
     (if isl (fst (authenticate_try rejects now c w)) \<and> \<not> rejects (Reply AuthError)
      then [Sent AuthError] else [])"
  by (simp add: authenticate_def reply_def split: prod.splits sum.splits)

lemma auth_result:
  "fst (authenticate rejects now c w) =
     (case fst (authenticate_try rejects now c w) of
        Inr r \<Rightarrow> Inr r
      | Inl e \<Rightarrow> if rejects (Reply AuthError) then Inl (Rejected (Reply AuthError)) else Inr None)"
  by (simp add: authenticate_def reply_def split: prod.splits sum.splits)

lemma proceeds_increments:
  assumes "proceeds (fst (authenticate rejects now c w))"
  shows "\<exists>k u u'. findEntryByTelegramId (db w) (chat_id c) = Some (k, u) \<and> is_active u \<noteq> Some False
            \<and> map_of (users (db w)) (uid u) = Some u' \<and> 0 < message_quota u' - message_count u'
            \<and> count_of (db (snd (authenticate rejects now c w))) (uid u)
                  = Some (js_increment (message_count u'))
            \<and> (- (2 ^ 53) \<le> message_count u' \<and> message_count u' < 2 ^ 53 \<longrightarrow>
                  count_of (db (snd (authenticate rejects now c w))) (uid u)
                    = Some (message_count u' + 1))
            \<and> (\<forall>k'. k' \<noteq> uid u \<longrightarrow>
                  count_of (db (snd (authenticate rejects now c w))) k' = count_of (db w) k')"
proof -
  from assms have p: "proceeds (fst (authenticate_try rejects now c w))"
    by (simp add: auth_proceeds)
  then have nf: "\<not> rejects FindUser"
    by (auto simp: try_unfold)
  from p nf obtain k u where e: "findEntryByTelegramId (db w) (chat_id c) = Some (k, u)"
    by (cases "findEntryByTelegramId (db w) (chat_id c)") (auto simp: try_unfold)
  with p nf have pf: "proceeds (fst (authenticate_found rejects now (k, u) w))"
    by (simp add: try_unfold)
  then have q: "hasQuota (fst (checkUserQuota (db w) (uid u)))" and a: "is_active u \<noteq> Some False"
    and r: "\<not> rejects CheckQuota" "\<not> rejects UpdateUser" "\<not> rejects IncrementCount"
    by (simp_all add: found_proceeds_iff)
  from q obtain u' where u': "map_of (users (db w)) (uid u) = Some u'"
    and pos: "0 < message_quota u' - message_count u'"
    by (auto simp: hasQuota_iff)
  have d: "db (snd (authenticate rejects now c w))
             = incrementMessageCount now (touch now (db w) (uid u)) (uid u)"
    using q a r nf e by (simp add: auth_db try_unfold found_db)
  have i: "count_of (db (snd (authenticate rejects now c w))) (uid u)
             = Some (js_increment (message_count u'))"
    using u' by (simp add: d count_of_incr count_of_touch) (simp add: count_of_def)
  then have s: "- (2 ^ 53) \<le> message_count u' \<and> message_count u' < 2 ^ 53 \<longrightarrow>
      count_of (db (snd (authenticate rejects now c w))) (uid u) = Some (message_count u' + 1)"
    by (simp add: js_increment_safe)
  have "\<forall>k'. k' \<noteq> uid u \<longrightarrow>
      count_of (db (snd (authenticate rejects now c w))) k' = count_of (db w) k'"
    by (simp add: d count_of_incr count_of_touch)
  with i s show ?thesis
    using e a u' pos by blast
qed

lemma blocked_unchanged:
  assumes "\<not> proceeds (fst (authenticate rejects now c w))"
  shows "count_of (db (snd (authenticate rejects now c w))) k = count_of (db w) k
         \<or> (findUserByTelegramId (db w) (chat_id c) = None \<and> k = next_user_id (db w)
             \<and> count_of (db (snd (authenticate rejects now c w))) k = Some 0)"
proof (cases "rejects FindUser")
  case True
  then show ?thesis by (simp add: auth_db try_unfold)
next
  case nf: False
  show ?thesis
  proof (cases "findEntryByTelegramId (db w) (chat_id c)")
    case None
    then show ?thesis using nf
      by (simp add: auth_db try_unfold new_user_db count_of_create find_user_entry)
  next
    case (Some e)
    obtain k' u where e: "e = (k', u)" by (cases e)
    from assms have "\<not> proceeds (fst (authenticate_found rejects now (k', u) w))"
      using nf Some e by (simp add: auth_proceeds try_unfold)
    then show ?thesis using nf Some e
      by (auto simp: auth_db try_unfold found_db found_proceeds_iff count_of_touch)
  qed
qed

lemma blocked_stored_counts:
  assumes "\<not> proceeds (fst (authenticate rejects now c w))" and "ids_from_counter (db w)"
    and "map_of (users (db w)) k = Some u"
  shows "count_of (db (snd (authenticate rejects now c w))) k = Some (message_count u)"
proof -
  from assms(2,3) have "k \<noteq> next_user_id (db w)"
    by (auto dest: next_user_id_fresh)
  with blocked_unchanged [OF assms(1), of k] assms(3) show ?thesis
    by (simp add: count_of_def)
qed

lemma ids_authenticate:
  assumes "ids_from_counter (db w)" and "userIdCounter (db w) < 2 ^ 53"
  shows "ids_from_counter (db (snd (authenticate rejects now c w)))"
proof (cases "rejects FindUser")
  case True
  with assms show ?thesis by (simp add: auth_db try_unfold)
next
  case nf: False
  show ?thesis
  proof (cases "findEntryByTelegramId (db w) (chat_id c)")
    case None
    with nf assms show ?thesis
      by (simp add: auth_db try_unfold new_user_db ids_createUser)
  next
    case (Some e)
    obtain k' u where e: "e = (k', u)" by (cases e)
    with nf Some assms show ?thesis
      by (simp add: auth_db try_unfold found_db ids_touch ids_incrementMessageCount)
  qed
qed

lemma gate_actions_bound:
  "gate_actions w (authenticate rejects now c w) \<le> 1
   \<and> ((\<forall>x. \<not> rejects x) \<longrightarrow> gate_actions w (authenticate rejects now c w) = 1)"
proof (cases "rejects FindUser")
  case True
  then show ?thesis
    by (auto simp: gate_actions_def auth_events auth_proceeds try_unfold)
next
  case nf: False
  show ?thesis
  proof (cases "findEntryByTelegramId (db w) (chat_id c)")
    case None
    then show ?thesis using nf
      by (auto simp: gate_actions_def auth_events auth_proceeds try_unfold new_user_events new_user_result)
  next
    case (Some e)
    obtain k' u where e: "e = (k', u)" by (cases e)
    show ?thesis using nf Some e
      by (simp add: gate_actions_def auth_events auth_proceeds try_unfold found_events
          found_proceeds_iff Let_def)
  qed
qed

lemma proceeds_conditions:
  "(proceeds (fst (authenticate rejects now c w)) \<longrightarrow>
      (\<exists>k u u'. findEntryByTelegramId (db w) (chat_id c) = Some (k, u) \<and> is_active u \<noteq> Some False
             \<and> map_of (users (db w)) (uid u) = Some u' \<and> 0 < message_quota u' - message_count u'))
   \<and> ((\<forall>x. \<not> rejects x) \<longrightarrow>
      (\<exists>k u u'. findEntryByTelegramId (db w) (chat_id c) = Some (k, u) \<and> is_active u \<noteq> Some False
             \<and> map_of (users (db w)) (uid u) = Some u' \<and> 0 < message_quota u' - message_count u')
      \<longrightarrow> proceeds (fst (authenticate rejects now c w)))"
proof (cases "rejects FindUser")
  case True
  then show ?thesis by (auto simp: auth_proceeds try_unfold)
next
  case nf: False
  show ?thesis
  proof (cases "findEntryByTelegramId (db w) (chat_id c)")
    case None
    then show ?thesis using nf
      by (auto simp: auth_proceeds try_unfold)
  next
    case (Some e)
    obtain k' u where e: "e = (k', u)" by (cases e)
    show ?thesis using nf Some e
      by (auto simp: auth_proceeds try_unfold found_proceeds_iff hasQuota_iff)
  qed
qed

text \<open>The equations that run the gate on the demo store.\<close>

lemmas eval_defs = authenticate_def authenticate_try_def authenticate_found_def handleNewUser_def
  reply_def createUser_def checkUserQuota_def updateUser_def incrementMessageCount_def touch_def
  findEntryByTelegramId_def findUserByTelegramId_def demo_user_def demo_db_def demo_world_def
  demo_ctx_def all_resolve_def proceeds_def blocked_def next_user_id_def display_name_def
  truthy_def Let_def thirty_days_def string_of_nat.simps js_increment_def

section \<open>The claims about the gate and the quota\<close>

text \<open>
  Claim C1, as amended. Whatever the store, the chat and the calls that reject:
  \<^item> when \<^verbatim>\<open>authenticate\<close> returns a user (PROCEED), the \<^verbatim>\<open>message_count\<close> of
    exactly one stored user was incremented once (\<^verbatim>\<open>message_count++\<close>) and no
    other count changed; the increment is by exactly 1 when the count is at
    least \<open>- (2 ^ 53)\<close> and below \<open>2 ^ 53\<close>, the range in which a JavaScript number
    counts in steps of 1; and that happens only for a user that was found,
    whose \<^verbatim>\<open>is_active\<close> is not \<^verbatim>\<open>false\<close> and whose quota exceeds its count;
  \<^item> on every other outcome no key of the store changes its count, except that
    the id that \<^verbatim>\<open>createUser\<close> takes for an unknown chat gets the count 0; in a
    store whose ids were issued by the counter that id is not in use, so that
    the count of every stored user is what it was; such a store stays one as
    long as the counter is below \<open>2 ^ 53\<close>;
  \<^item> of create, deactivation notice, quota notice and proceed at most one
    happens, and exactly one when no awaited call rejects; then PROCEED is the
    outcome of every found, not deactivated user with quota left.
\<close>

theorem authenticate_counts_message_once:
  "(proceeds (fst (authenticate rejects now c w)) \<longrightarrow>
      (\<exists>k u u'. findEntryByTelegramId (db w) (chat_id c) = Some (k, u) \<and> is_active u \<noteq> Some False
           \<and> map_of (users (db w)) (uid u) = Some u' \<and> 0 < message_quota u' - message_count u'
           \<and> count_of (db (snd (authenticate rejects now c w))) (uid u)
                 = Some (js_increment (message_count u'))
           \<and> (- (2 ^ 53) \<le> message_count u' \<and> message_count u' < 2 ^ 53 \<longrightarrow>
                 count_of (db (snd (authenticate rejects now c w))) (uid u)
                   = Some (message_count u' + 1))
           \<and> (\<forall>k'. k' \<noteq> uid u \<longrightarrow>
                 count_of (db (snd (authenticate rejects now c w))) k' = count_of (db w) k')))
   \<and> (\<not> proceeds (fst (authenticate rejects now c w)) \<longrightarrow>
      (\<forall>k. count_of (db (snd (authenticate rejects now c w))) k = count_of (db w) k
         \<or> (findUserByTelegramId (db w) (chat_id c) = None \<and> k = next_user_id (db w)
             \<and> count_of (db (snd (authenticate rejects now c w))) k = Some 0))
    \<and> (ids_from_counter (db w) \<longrightarrow>
         (\<forall>k u. map_of (users (db w)) k = Some u \<longrightarrow>
            count_of (db (snd (authenticate rejects now c w))) k = Some (message_count u))))
   \<and> (ids_from_counter (db w) \<longrightarrow>
        map_of (users (db w)) (next_user_id (db w)) = None
      \<and> (userIdCounter (db w) < 2 ^ 53 \<longrightarrow>
           ids_from_counter (db (snd (authenticate rejects now c w)))))
   \<and> gate_actions w (authenticate rejects now c w) \<le> 1
   \<and> ((\<forall>x. \<not> rejects x) \<longrightarrow>
        gate_actions w (authenticate rejects now c w) = 1
      \<and> ((\<exists>k u u'. findEntryByTelegramId (db w) (chat_id c) = Some (k, u) \<and> is_active u \<noteq> Some False
             \<and> map_of (users (db w)) (uid u) = Some u' \<and> 0 < message_quota u' - message_count u')
          \<longrightarrow> proceeds (fst (authenticate rejects now c w))))"
proof -
  have a: "proceeds (fst (authenticate rejects now c w)) \<longrightarrow>
      (\<exists>k u u'. findEntryByTelegramId (db w) (chat_id c) = Some (k, u) \<and> is_active u \<noteq> Some False
           \<and> map_of (users (db w)) (uid u) = Some u' \<and> 0 < message_quota u' - message_count u'
           \<and> count_of (db (snd (authenticate rejects now c w))) (uid u)
                 = Some (js_increment (message_count u'))
           \<and> (- (2 ^ 53) \<le> message_count u' \<and> message_count u' < 2 ^ 53 \<longrightarrow>
                 count_of (db (snd (authenticate rejects now c w))) (uid u)
                   = Some (message_count u' + 1))
           \<and> (\<forall>k'. k' \<noteq> uid u \<longrightarrow>
                 count_of (db (snd (authenticate rejects now c w))) k' = count_of (db w) k'))"
    using proceeds_increments [of rejects now c w] by blast
  have b: "\<not> proceeds (fst (authenticate rejects now c w)) \<longrightarrow>
      (\<forall>k. count_of (db (snd (authenticate rejects now c w))) k = count_of (db w) k
         \<or> (findUserByTelegramId (db w) (chat_id c) = None \<and> k = next_user_id (db w)
             \<and> count_of (db (snd (authenticate rejects now c w))) k = Some 0))"
    using blocked_unchanged [of rejects now c w] by blast
  have b': "\<not> proceeds (fst (authenticate rejects now c w)) \<longrightarrow> ids_from_counter (db w) \<longrightarrow>
      (\<forall>k u. map_of (users (db w)) k = Some u \<longrightarrow>
         count_of (db (snd (authenticate rejects now c w))) k = Some (message_count u))"
    using blocked_stored_counts [of rejects now c w] by blast
  have i: "ids_from_counter (db w) \<longrightarrow>
        map_of (users (db w)) (next_user_id (db w)) = None
      \<and> (userIdCounter (db w) < 2 ^ 53 \<longrightarrow>
           ids_from_counter (db (snd (authenticate rejects now c w))))"
    using next_user_id_fresh [of "db w"] ids_authenticate [of w rejects now c] by blast
  have g: "gate_actions w (authenticate rejects now c w) \<le> 1
   \<and> ((\<forall>x. \<not> rejects x) \<longrightarrow>
        gate_actions w (authenticate rejects now c w) = 1
      \<and> ((\<exists>k u u'. findEntryByTelegramId (db w) (chat_id c) = Some (k, u) \<and> is_active u \<noteq> Some False
             \<and> map_of (users (db w)) (uid u) = Some u' \<and> 0 < message_quota u' - message_count u')
          \<longrightarrow> proceeds (fst (authenticate rejects now c w))))"
    using gate_actions_bound [of w rejects now c] proceeds_conditions [of rejects now c w]
    by blast
  from b b' have bb: "\<not> proceeds (fst (authenticate rejects now c w)) \<longrightarrow>
      (\<forall>k. count_of (db (snd (authenticate rejects now c w))) k = count_of (db w) k
         \<or> (findUserByTelegramId (db w) (chat_id c) = None \<and> k = next_user_id (db w)
             \<and> count_of (db (snd (authenticate rejects now c w))) k = Some 0))
    \<and> (ids_from_counter (db w) \<longrightarrow>
         (\<forall>k u. map_of (users (db w)) k = Some u \<longrightarrow>
            count_of (db (snd (authenticate rejects now c w))) k = Some (message_count u)))"
    by blast
  show ?thesis
    by (rule conjI [OF a conjI [OF bb conjI [OF i g]]])
qed

text \<open>
  Witness for C1: the account with 99 of 100 messages used sends a message and
  every call resolves. The ids of the store were issued by its counter. The
  gate proceeds, the count becomes 100, one action.
\<close>

theorem authenticate_counts_message_once_witness:
  "proceeds (fst (authenticate all_resolve 0 demo_ctx demo_world))
   \<and> (\<forall>x. \<not> all_resolve x)
   \<and> ids_from_counter (db demo_world) \<and> userIdCounter (db demo_world) < 2 ^ 53
   \<and> ids_from_counter (db (snd (authenticate all_resolve 0 demo_ctx demo_world)))
   \<and> count_of (db demo_world) ''user_1'' = Some 99 \<and> - (2 ^ 53) \<le> (99 :: int) \<and> (99 :: int) < 2 ^ 53
   \<and> count_of (db (snd (authenticate all_resolve 0 demo_ctx demo_world))) ''user_1'' = Some 100
   \<and> gate_actions demo_world (authenticate all_resolve 0 demo_ctx demo_world) = 1"
proof -
  let ?out = "authenticate all_resolve 0 demo_ctx demo_world"
  note t = authenticate_counts_message_once [of all_resolve 0 demo_ctx demo_world]
  have p: "proceeds (fst ?out)"
    by (simp add: eval_defs)
  have r: "\<forall>x. \<not> all_resolve x"
    by (simp add: all_resolve_def)
  have i: "ids_from_counter (db demo_world)"
    by (simp add: ids_from_counter_def user_ids_def demo_world_def demo_db_def numeral_2_eq_2
        string_of_nat.simps)
       (simp add: eq_commute [of "CHR ''1''"] char_of_eq_iff take_bit_eq_mod)
  have n: "userIdCounter (db demo_world) < 2 ^ 53"
    by (simp add: demo_world_def demo_db_def)
  have c: "count_of (db demo_world) ''user_1'' = Some 99"
    by (simp add: count_of_def demo_world_def demo_db_def demo_user_def)
  have c': "count_of (db (snd ?out)) ''user_1'' = Some 100"
    by (simp add: eval_defs count_of_def)
  from t i n have i': "ids_from_counter (db (snd ?out))"
    by blast
  from t r have g: "gate_actions demo_world ?out = 1"
    by blast
  from p r i n i' c c' g show ?thesis
    by simp
qed

text \<open>
  At \<open>2 ^ 53\<close> the count stays: the account of \<open>saturated_world\<close> has quota left,
  its message proceeds, and \<^verbatim>\<open>message_count++\<close> leaves the count as it was.
\<close>

lemma authenticate_count_stays_at_2_53:
  "proceeds (fst (authenticate all_resolve 0 demo_ctx saturated_world))
   \<and> count_of (db saturated_world) ''user_1'' = Some (2 ^ 53)
   \<and> count_of (db (snd (authenticate all_resolve 0 demo_ctx saturated_world))) ''user_1'' = Some (2 ^ 53)"
  by (simp add: eval_defs count_of_def saturated_world_def)

text \<open>
  Counterexample to C1 as stated: when the lookup rejects, the message is
  answered with the authentication-error notice and none of create,
  deactivation notice, quota notice, proceed happens, so "exactly one per
  message" fails on the collaborator-error outcome that the claim lists.
\<close>

theorem authenticate_lookup_failure_no_gate_action:
  "gate_actions demo_world (authenticate lookup_down 0 demo_ctx demo_world) = 0
   \<and> blocked (fst (authenticate lookup_down 0 demo_ctx demo_world))
   \<and> events (snd (authenticate lookup_down 0 demo_ctx demo_world)) = [Sent AuthError]"
  by (simp add: eval_defs gate_actions_def lookup_down_def)

text \<open>
  Claim C2. For a found user whose \<^verbatim>\<open>is_active\<close> is exactly \<^verbatim>\<open>false\<close>, whatever
  the quota and whichever calls reject, \<^verbatim>\<open>authenticate\<close> does not proceed and
  leaves the store as it was; when the lookup and the notice go through, the
  outcome is BLOCKED with the deactivation notice as the only action. A found
  user whose \<^verbatim>\<open>is_active\<close> is unset (or \<^verbatim>\<open>true\<close>) never gets the deactivation
  notice, and with every call resolving proceeds exactly when the quota check
  allows it.
\<close>

theorem inactive_blocked_unset_active:
  assumes "findEntryByTelegramId (db w) (chat_id c) = Some (k, u)"
  shows "(is_active u = Some False \<longrightarrow>
            \<not> proceeds (fst (authenticate rejects now c w))
          \<and> db (snd (authenticate rejects now c w)) = db w
          \<and> (\<not> rejects FindUser \<and> \<not> rejects (Reply Deactivated) \<longrightarrow>
               blocked (fst (authenticate rejects now c w))
             \<and> events (snd (authenticate rejects now c w)) = events w @ [Sent Deactivated]))
       \<and> (is_active u \<noteq> Some False \<longrightarrow>
            Sent Deactivated \<notin> set (drop (length (events w)) (events (snd (authenticate rejects now c w))))
          \<and> ((\<forall>x. \<not> rejects x) \<longrightarrow>
               proceeds (fst (authenticate rejects now c w))
                 = hasQuota (fst (checkUserQuota (db w) (uid u)))))"
proof (cases "rejects FindUser")
  case True
  then show ?thesis
    by (auto simp: auth_proceeds auth_db auth_events try_unfold)
next
  case False
  then show ?thesis using assms
    by (simp add: auth_proceeds auth_db auth_events auth_result blocked_def try_unfold
        found_proceeds_iff found_db found_events found_result Let_def)
qed

text \<open>
  Witness for C2: the deactivated account is blocked; the same account with
  \<^verbatim>\<open>is_active\<close> unset proceeds.
\<close>

theorem inactive_blocked_unset_active_witness:
  "findEntryByTelegramId (db inactive_world) (chat_id demo_ctx) = Some (''user_1'', inactive_user)
   \<and> is_active inactive_user = Some False
   \<and> \<not> all_resolve FindUser \<and> \<not> all_resolve (Reply Deactivated)
   \<and> blocked (fst (authenticate all_resolve 0 demo_ctx inactive_world))
   \<and> findEntryByTelegramId (db demo_world) (chat_id demo_ctx) = Some (''user_1'', demo_user)
   \<and> is_active demo_user \<noteq> Some False \<and> (\<forall>x. \<not> all_resolve x)
   \<and> proceeds (fst (authenticate all_resolve 0 demo_ctx demo_world))"
  using inactive_blocked_unset_active [of inactive_world demo_ctx "''user_1''" inactive_user all_resolve 0]
        inactive_blocked_unset_active [of demo_world demo_ctx "''user_1''" demo_user all_resolve 0]
  by (simp add: eval_defs inactive_world_def inactive_user_def)

text \<open>
  Claim C3. \<^verbatim>\<open>checkUserQuota\<close> answers \<^verbatim>\<open>hasQuota = true\<close> exactly when
  \<^verbatim>\<open>message_quota - message_count > 0\<close> for the stored user, in the in-memory
  store and in the SQL-backed one, and leaves the store as it was; a user one
  message short of the quota is allowed, a user at the quota is not.
\<close>

theorem checkUserQuota_allowed_iff_remaining:
  "(map_of (users d) userId = Some u \<longrightarrow>
      hasQuota (fst (checkUserQuota d userId)) = (0 < message_quota u - message_count u)
    \<and> (message_count u = message_quota u - 1 \<longrightarrow> hasQuota (fst (checkUserQuota d userId)))
    \<and> (message_count u = message_quota u \<longrightarrow> \<not> hasQuota (fst (checkUserQuota d userId))))
   \<and> snd (checkUserQuota d userId) = d
   \<and> (filter (\<lambda>r. uid r = userId) tbl = r # rs \<longrightarrow>
      hasQuota (fst (checkUserQuota_direct tbl userId)) = (0 < message_quota r - message_count r)
    \<and> (message_count r = message_quota r - 1 \<longrightarrow> hasQuota (fst (checkUserQuota_direct tbl userId)))
    \<and> (message_count r = message_quota r \<longrightarrow> \<not> hasQuota (fst (checkUserQuota_direct tbl userId))))
   \<and> snd (checkUserQuota_direct tbl userId) = tbl"
  by (simp add: checkUserQuota_def checkUserQuota_direct_def Let_def split: option.splits list.splits)

text \<open>Witness for C3: 99 of 100 used is allowed, 100 of 100 is not.\<close>

theorem checkUserQuota_allowed_iff_remaining_witness:
  "map_of (users demo_db) ''user_1'' = Some demo_user
   \<and> message_count demo_user = message_quota demo_user - 1
   \<and> hasQuota (fst (checkUserQuota demo_db ''user_1''))
   \<and> filter (\<lambda>r. uid r = ''user_1'') [demo_user\<lparr> message_count := 100 \<rparr>]
       = [demo_user\<lparr> message_count := 100 \<rparr>]
   \<and> message_count (demo_user\<lparr> message_count := 100 \<rparr>)
       = message_quota (demo_user\<lparr> message_count := 100 \<rparr>)
   \<and> \<not> hasQuota (fst (checkUserQuota_direct [demo_user\<lparr> message_count := 100 \<rparr>] ''user_1''))"
  using checkUserQuota_allowed_iff_remaining [of demo_db "''user_1''" demo_user
          "[demo_user\<lparr> message_count := 100 \<rparr>]" "demo_user\<lparr> message_count := 100 \<rparr>" "[]"]
  by (simp add: demo_db_def demo_user_def)

text \<open>
  Claim C4. When the lookup finds no user for the chat and the creation and
  the welcome go through, \<^verbatim>\<open>authenticate\<close> returns \<^verbatim>\<open>null\<close> (BLOCKED) after
  exactly two actions, the creation of the account and one welcome notice; a
  lookup by the same chat id then returns the new record, which is FREE tier
  with quota 100, count 0, \<^verbatim>\<open>is_active = true\<close> and a reset date 30 days after
  \<open>now\<close>; no later message of that chat is answered with a welcome.
\<close>

theorem new_user_created_and_blocked:
  assumes "findUserByTelegramId (db w) (chat_id c) = None"
    and "\<not> rejects FindUser" and "\<not> rejects CreateUser" and "\<not> rejects (Reply (Welcome 100))"
  shows "blocked (fst (authenticate rejects now c w))
       \<and> events (snd (authenticate rejects now c w))
           = events w @ [Created (next_user_id (db w)), Sent (Welcome 100)]
       \<and> (\<exists>u. findUserByTelegramId (db (snd (authenticate rejects now c w))) (chat_id c) = Some u
              \<and> uid u = next_user_id (db w) \<and> telegram_chat_id u = Some (chat_id c)
              \<and> tier u = ''FREE'' \<and> message_quota u = 100 \<and> message_count u = 0
              \<and> is_active u = Some True \<and> quota_reset_date u = now + 30 * 24 * 60 * 60 * 1000)
       \<and> (\<forall>rejects' now' q.
            Sent (Welcome q) \<notin> set (drop (length (events (snd (authenticate rejects now c w))))
              (events (snd (authenticate rejects' now' c (snd (authenticate rejects now c w)))))))"
proof -
  let ?out = "authenticate rejects now c w"
  let ?dat = "\<lparr> telegramChatId = Some (chat_id c), telegramUsername = None,
                 ud_name = Some (display_name c), ud_tier = Some ''FREE'' \<rparr>"
  from assms(1) have none: "findEntryByTelegramId (db w) (chat_id c) = None"
    by (simp add: find_user_entry)
  have r: "fst ?out = Inr None"
    using none assms(2-4) by (simp add: auth_result try_unfold new_user_result)
  have ev: "events (snd ?out) = events w @ [Created (next_user_id (db w)), Sent (Welcome 100)]"
    using none assms(2-4) by (simp add: auth_events try_unfold new_user_events new_user_result)
  have d: "db (snd ?out) = snd (createUser now ?dat (db w))"
    using none assms(2-4) by (simp add: auth_db try_unfold new_user_db)
  have f: "findEntryByTelegramId (snd (createUser now ?dat (db w))) (chat_id c)
             = Some (next_user_id (db w), fst (createUser now ?dat (db w)))"
    using none
    by (simp add: findEntryByTelegramId_def createUser_def Let_def find_map_set_new)
  have again: "Sent (Welcome q) \<notin> set (drop (length (events (snd ?out)))
              (events (snd (authenticate rejects' now' c (snd ?out)))))" for rejects' now' q
  proof (cases "rejects' FindUser")
    case True
    then show ?thesis by (simp add: auth_events try_unfold)
  next
    case False
    then show ?thesis using f d
      by (simp add: auth_events try_unfold found_events Let_def)
  qed
  show ?thesis
    using r ev again f
    by (simp add: blocked_def d findUserByTelegramId_def)
       (simp add: createUser_def Let_def thirty_days_def)
qed

text \<open>Witness for C4: an unknown chat writes to the demo store.\<close>

theorem new_user_created_and_blocked_witness:
  "findUserByTelegramId (db demo_world) (chat_id stranger_ctx) = None
   \<and> \<not> all_resolve FindUser \<and> \<not> all_resolve CreateUser \<and> \<not> all_resolve (Reply (Welcome 100))
   \<and> blocked (fst (authenticate all_resolve 7 stranger_ctx demo_world))
   \<and> map_option tier (findUserByTelegramId (db (snd (authenticate all_resolve 7 stranger_ctx demo_world)))
        (chat_id stranger_ctx)) = Some ''FREE''"
  using new_user_created_and_blocked [of demo_world stranger_ctx all_resolve 7]
  by (simp add: eval_defs stranger_ctx_def)

text \<open>
  Claim C9, evaluated on the code. The in-memory \<^verbatim>\<open>createUser\<close> gives FREE 100,
  BASIC 500 and PRO 1000. The SQL-backed \<^verbatim>\<open>createUser\<close> stores the tier it is
  given and the constant quota 100: a BASIC user is created with quota 100.
\<close>

theorem createUser_direct_quota_ignores_tier:
  "message_quota (fst (createUser_direct defaults uuid now (dat\<lparr> ud_tier := Some ''BASIC'' \<rparr>) tbl)) = 100
   \<and> tier (fst (createUser_direct defaults uuid now (dat\<lparr> ud_tier := Some ''BASIC'' \<rparr>) tbl)) = ''BASIC''
   \<and> message_quota (fst (createUser now (dat\<lparr> ud_tier := Some ''BASIC'' \<rparr>) d)) = 500
   \<and> message_quota (fst (createUser now (dat\<lparr> ud_tier := Some ''FREE'' \<rparr>) d)) = 100
   \<and> message_quota (fst (createUser now (dat\<lparr> ud_tier := Some ''PRO'' \<rparr>) d)) = 1000"
  by (simp add: createUser_direct_def createUser_def Let_def)

text \<open>
  Claim C10. For a user id with no stored record \<^verbatim>\<open>checkUserQuota\<close> returns
  \<^verbatim>\<open>{ hasQuota: false, remaining: 0 }\<close> in both stores. When the record of the
  user that the lookup found is gone by the time of the quota check, the rest
  of \<^verbatim>\<open>authenticate\<close> does not proceed and does not touch the store; when the
  quota check and the quota notice go through, it ends BLOCKED with that notice.
\<close>

theorem checkUserQuota_missing_user_blocks:
  assumes "map_of (users (db w)) (uid u) = None"
  shows "fst (checkUserQuota (db w) (uid u))
           = \<lparr> hasQuota = False, remaining = 0, total = None, used = None \<rparr>
       \<and> \<not> proceeds (fst (authenticate_found rejects now (k, u) w))
       \<and> db (snd (authenticate_found rejects now (k, u) w)) = db w
       \<and> (is_active u \<noteq> Some False \<and> \<not> rejects CheckQuota
            \<and> \<not> rejects (Reply (QuotaExceeded None None)) \<longrightarrow>
            blocked (fst (authenticate_found rejects now (k, u) w))
          \<and> events (snd (authenticate_found rejects now (k, u) w))
              = events w @ [Sent (QuotaExceeded None None)])
       \<and> (filter (\<lambda>r. uid r = uid u) tbl = [] \<longrightarrow>
            fst (checkUserQuota_direct tbl (uid u))
              = \<lparr> hasQuota = False, remaining = 0, total = None, used = None \<rparr>)"
proof -
  have q: "fst (checkUserQuota (db w) (uid u))
             = \<lparr> hasQuota = False, remaining = 0, total = None, used = None \<rparr>"
    using assms by (simp add: checkUserQuota_def)
  have p: "\<not> proceeds (fst (authenticate_found rejects now (k, u) w))"
    by (simp add: q found_proceeds_iff)
  have b: "is_active u \<noteq> Some False \<and> \<not> rejects CheckQuota
             \<and> \<not> rejects (Reply (QuotaExceeded None None)) \<longrightarrow>
           blocked (fst (authenticate_found rejects now (k, u) w))"
    by (simp add: q found_result blocked_def Let_def)
  show ?thesis
    using p b by (simp add: q found_db found_events checkUserQuota_direct_def)
qed

text \<open>Witness for C10: the demo user was removed from the store after the lookup.\<close>

theorem checkUserQuota_missing_user_blocks_witness:
  "map_of (users (db emptied_world)) (uid demo_user) = None
   \<and> is_active demo_user \<noteq> Some False \<and> \<not> all_resolve CheckQuota
   \<and> \<not> all_resolve (Reply (QuotaExceeded None None))
   \<and> filter (\<lambda>r. uid r = uid demo_user) [] = []
   \<and> blocked (fst (authenticate_found all_resolve 0 (''user_1'', demo_user) emptied_world))"
  using checkUserQuota_missing_user_blocks [of emptied_world demo_user all_resolve 0 "''user_1''" "[]"]
  by (simp add: emptied_world_def demo_db_def demo_user_def all_resolve_def)


section \<open>The claim about the sandbox\<close>

lemma run_operations_objects:
  "OpNull \<notin> set ops \<Longrightarrow>
     \<exists>rs. run_operations sid ops acc = Inr (acc @ rs) \<and> length rs = length ops"
proof (induction ops arbitrary: acc)
  case Nil
  then show ?case by simp
next
  case (Cons v ops)
  then obtain opn where v: "v = OpObject opn" by (cases v) auto
  from Cons.prems have "OpNull \<notin> set ops" by simp
  from Cons.IH [OF this, of "acc @ [run_operation sid opn]"]
  obtain rs where "run_operations sid ops (acc @ [run_operation sid opn])
                     = Inr ((acc @ [run_operation sid opn]) @ rs)" "length rs = length ops"
    by blast
  then show ?case
    using v by (intro exI [of _ "run_operation sid opn # rs"]) simp
qed

text \<open>
  Claim C8. \<^verbatim>\<open>executeOperations\<close> sends exactly one creation request per batch.
  When the request yields a sandbox id, the log of requests is that creation
  followed by exactly one deletion of that sandbox, whether the batch returns
  results or throws; a batch of operation objects returns one result per
  operation, failed ones included. Whether the deletion resolves or rejects
  changes neither what \<^verbatim>\<open>executeOperations\<close> returns nor what it throws. When the
  creation request rejects, its error is thrown and there is nothing to delete.
\<close>

theorem executeOperations_tears_down:
  "length (filter is_create (snd (executeOperations api ops apiKey))) = 1
   \<and> (\<forall>sid. post_sandbox api = Inr (Some sid) \<and> sid \<noteq> [] \<longrightarrow>
        (\<exists>k k'. snd (executeOperations api ops apiKey)
                   = [CreateRequest k, DeleteRequest sid k' (delete_resolves api)])
      \<and> (OpNull \<notin> set ops \<longrightarrow>
           (\<exists>rs. fst (executeOperations api ops apiKey) = Inr rs \<and> length rs = length ops)))
   \<and> fst (executeOperations (api\<lparr> delete_resolves := b \<rparr>) ops apiKey)
       = fst (executeOperations api ops apiKey)
   \<and> (\<forall>m. post_sandbox api = Inl m \<longrightarrow>
        fst (executeOperations api ops apiKey)
          = Inl (JsError (''Failed to create sandbox environment: '' @ m))
      \<and> filter is_delete (snd (executeOperations api ops apiKey)) = [])"
proof -
  have one: "length (filter is_create (snd (executeOperations api ops apiKey))) = 1"
    by (simp add: executeOperations_def createSandbox_def Let_def split: sum.splits)
  have del: "fst (executeOperations (api\<lparr> delete_resolves := b \<rparr>) ops apiKey)
               = fst (executeOperations api ops apiKey)"
    by (simp add: executeOperations_def createSandbox_def Let_def split: sum.splits)
  have fail: "post_sandbox api = Inl m \<longrightarrow>
        fst (executeOperations api ops apiKey)
          = Inl (JsError (''Failed to create sandbox environment: '' @ m))
      \<and> filter is_delete (snd (executeOperations api ops apiKey)) = []" for m
    by (simp add: executeOperations_def createSandbox_def Let_def)
  have ok: "post_sandbox api = Inr (Some sid) \<and> sid \<noteq> [] \<longrightarrow>
        (\<exists>k k'. snd (executeOperations api ops apiKey)
                   = [CreateRequest k, DeleteRequest sid k' (delete_resolves api)])
      \<and> (OpNull \<notin> set ops \<longrightarrow>
           (\<exists>rs. fst (executeOperations api ops apiKey) = Inr rs \<and> length rs = length ops))" for sid
    using run_operations_objects [of ops "Some sid" "[]"]
    by (auto simp: executeOperations_def createSandbox_def deleteSandbox_def truthy_def Let_def)
  show ?thesis
    using one del fail ok by blast
qed

text \<open>
  Witness for C8: a write without content (a failed operation) and a command,
  in a sandbox whose deletion request rejects.
\<close>

theorem executeOperations_tears_down_witness:
  "post_sandbox demo_api = Inr (Some ''sbx1'') \<and> ''sbx1'' \<noteq> []
   \<and> OpNull \<notin> set demo_ops
   \<and> snd (executeOperations demo_api demo_ops None)
       = [CreateRequest (Some ''e2b_default''), DeleteRequest ''sbx1'' (Some ''e2b_default'') False]
   \<and> map res_success (projr (fst (executeOperations demo_api demo_ops None))) = [False, True]
   \<and> snd (executeOperations demo_api (OpNull # demo_ops) None)
       = [CreateRequest (Some ''e2b_default''), DeleteRequest ''sbx1'' (Some ''e2b_default'') False]
   \<and> isl (fst (executeOperations demo_api (OpNull # demo_ops) None))"
  using executeOperations_tears_down [of demo_api demo_ops None]
  by (simp add: executeOperations_def createSandbox_def deleteSandbox_def truthy_def Let_def
      demo_api_def demo_ops_def run_operation_def writeFile_def executeTerminalCommand_def)


section \<open>The claim about cache invalidation\<close>

lemma activate_keeps_cache: "app_cache (snd (activate env body a)) = app_cache a"
  by (simp add: activate_def split: option.splits sum.splits prod.splits)

lemma revoke_keeps_cache: "app_cache (snd (revoke env body a)) = app_cache a"
  by (simp add: revoke_def split: option.splits sum.splits prod.splits)

text \<open>
  Claim C7, evaluated on the code. Neither route writes to the cache, whatever
  the request. In the scenario the revocation succeeds and clears the user's
  stored keys, the \<^verbatim>\<open>api_keys\<close> entry cached by the first message is still there,
  and the second message takes its key object from the cache, the one read
  before the revocation, while the store now answers with no keys. After
  \<^verbatim>\<open>clearUserCache\<close>, which the \<^verbatim>\<open>/reset\<close> command calls when it changes a user,
  the lookup would have missed.
\<close>

theorem revoke_leaves_stale_cache_entry:
  "app_cache (snd (activate env body a)) = app_cache a
   \<and> app_cache (snd (revoke env body a)) = app_cache a
   \<and> fst (revoke (route_env_at 1000) revoke_body app_after_message)
       = Response 200 ''API keys revoked successfully. Your account has been downgraded to FREE tier.''
   \<and> getUserApiKeys tag_decrypt (app_db app_after_revoke) ''user_1''
       = [(''geminiKey'', None), (''e2bKey'', None)]
   \<and> snd (fst (resolveApiKeys (key_env_at 2000) (Some keyed_user) app_after_revoke))
       = Some [(''geminiKey'', Some ''AIzaPERSONAL''), (''e2bKey'', Some ''e2b_personal'')]
   \<and> fst (getCachedKeys (clearUserCache (app_cache app_after_revoke) ''user_1'') ''user_1'' 2000) = None"
proof -
  have c0: "app_cache app_after_message ''api_keys:user_1''
              = Some \<lparr> item_value = [(''geminiKey'', Some ''AIzaPERSONAL''), (''e2bKey'', Some ''e2b_personal'')],
                       expiresAt = 1800000 \<rparr>"
    by (simp add: app_after_message_def resolveApiKeys_def key_env_at_def keyed_app_def keyed_user_def
        demo_user_def demo_db_def getCachedKeys_def setCachedKeys_def cache_get_def cache_set_def
        generateKey_def getUserApiKeys_def tag_decrypt_def startsWith_def Let_def)
  have c1: "app_cache app_after_revoke = app_cache app_after_message"
    by (simp add: app_after_revoke_def revoke_keeps_cache)
  have d0: "app_db app_after_message = demo_db\<lparr> users := [(''user_1'', keyed_user)] \<rparr>"
    by (simp add: app_after_message_def resolveApiKeys_def key_env_at_def keyed_app_def
        getCachedKeys_def cache_get_def Let_def split: prod.splits)
  have r: "revoke (route_env_at 1000) revoke_body app_after_message
             = (Response 200 ''API keys revoked successfully. Your account has been downgraded to FREE tier.'',
                app_after_revoke)"
    by (simp add: app_after_revoke_def revoke_def revoke_try_def route_env_at_def revoke_body_def d0
        findUserByTelegramId_def findEntryByTelegramId_def keyed_user_def demo_user_def Let_def)
  have d1: "getUserApiKeys tag_decrypt (app_db app_after_revoke) ''user_1''
              = [(''geminiKey'', None), (''e2bKey'', None)]"
    by (simp add: app_after_revoke_def revoke_def revoke_try_def route_env_at_def revoke_body_def d0
        findUserByTelegramId_def findEntryByTelegramId_def keyed_user_def demo_user_def demo_db_def
        updateUser_def logUsage_def getUserApiKeys_def encrypt_field_def truthy_def tag_decrypt_def Let_def)
  have s: "snd (fst (resolveApiKeys (key_env_at 2000) (Some keyed_user) app_after_revoke))
             = Some [(''geminiKey'', Some ''AIzaPERSONAL''), (''e2bKey'', Some ''e2b_personal'')]"
    by (simp add: resolveApiKeys_def key_env_at_def getCachedKeys_def cache_get_def generateKey_def
        c1 c0 keyed_user_def demo_user_def Let_def)
  have k: "fst (getCachedKeys (clearUserCache (app_cache app_after_revoke) ''user_1'') ''user_1'' 2000) = None"
    by (simp add: getCachedKeys_def clearUserCache_def cache_get_def cache_delete_def generateKey_def)
  show ?thesis
    using r d1 s k by (simp add: activate_keeps_cache revoke_keeps_cache)
qed

text \<open>
  Witness for C7: the revocation of the scenario, a request that the route
  accepts, leaves the user's \<^verbatim>\<open>api_keys\<close> entry in the cache.
\<close>

theorem revoke_leaves_stale_cache_entry_witness:
  "app_cache (snd (revoke (route_env_at 1000) revoke_body app_after_message)) ''api_keys:user_1''
     = Some \<lparr> item_value = [(''geminiKey'', Some ''AIzaPERSONAL''), (''e2bKey'', Some ''e2b_personal'')],
              expiresAt = 1800000 \<rparr>
   \<and> app_cache (snd (activate (route_env_at 1000) revoke_body app_after_message))
       = app_cache app_after_message"
proof -
  have c0: "app_cache app_after_message ''api_keys:user_1''
              = Some \<lparr> item_value = [(''geminiKey'', Some ''AIzaPERSONAL''), (''e2bKey'', Some ''e2b_personal'')],
                       expiresAt = 1800000 \<rparr>"
    by (simp add: app_after_message_def resolveApiKeys_def key_env_at_def keyed_app_def keyed_user_def
        demo_user_def demo_db_def getCachedKeys_def setCachedKeys_def cache_get_def cache_set_def
        generateKey_def getUserApiKeys_def tag_decrypt_def startsWith_def Let_def)
  show ?thesis
    using revoke_leaves_stale_cache_entry [of "route_env_at 1000" revoke_body app_after_message] c0
    by simp
qed


section \<open>The claim about the error reply\<close>

lemma processMessage_error_path:
  assumes "fst (processMessage_try env chatId messageText usr st) = Inl e"
  shows "fst (processMessage env chatId messageText usr st) = error_reply (message e)"
    and "usr = Some u \<Longrightarrow> \<not> pm_rejects env LogProcessingError \<Longrightarrow>
         store_calls (snd (processMessage env chatId messageText usr st))
           = store_calls (snd (processMessage_try env chatId messageText usr st))
               @ [LogUsage (uid u) ''message_processing_error'' None False (Some (message e))]"
  using assms by (auto simp: processMessage_def attempt_def split: prod.splits sum.splits)

text \<open>
  Claim C6, evaluated on the code. A user's message makes the provider ask
  for a command; the sandbox cannot be created. The failure entry is logged
  for the user, and the text returned to the caller contains the message of
  the exception, with the address of the host that refused the connection.
\<close>

theorem processMessage_reply_carries_exception_text:
  "fst (processMessage unreachable_env 5221301620 ''run hello.py'' (Some keyed_user) idle_state)
     = error_reply ''Failed to create sandbox environment: connect ECONNREFUSED 10.0.0.7:443''
   \<and> last (store_calls (snd (processMessage unreachable_env 5221301620 ''run hello.py''
                                (Some keyed_user) idle_state)))
       = LogUsage ''user_1'' ''message_processing_error'' None False
           (Some ''Failed to create sandbox environment: connect ECONNREFUSED 10.0.0.7:443'')"
proof -
  have v: "validateInput ''run hello.py'' = Inr ()"
    by (simp add: validateInput_def dangerousPatterns_def is_space_def to_lower_def)
  have t: "fst (processMessage_try unreachable_env 5221301620 ''run hello.py'' (Some keyed_user) idle_state)
             = Inl (JsError ''Failed to create sandbox environment: connect ECONNREFUSED 10.0.0.7:443'')"
    by (simp add: processMessage_try_def after_answer_def v find_conversation_def unreachable_env_def
        run_command_def executeOperations_def createSandbox_def Let_def split: prod.splits)
  have s: "store_calls (snd (processMessage_try unreachable_env 5221301620 ''run hello.py''
                               (Some keyed_user) idle_state))
             = [LogUsage ''user_1'' ''gemini_request'' (Some 12) True None,
                SaveMessage ''conv_1'' ''USER'' ''run hello.py'' (Some 12)]"
    by (simp add: processMessage_try_def after_answer_def log_gemini_def save_user_def v
        find_conversation_def unreachable_env_def run_command_def executeOperations_def
        createSandbox_def attempt_def idle_state_def keyed_user_def demo_user_def
        Let_def split: prod.splits)
  show ?thesis
    using processMessage_error_path(1) [OF t] processMessage_error_path(2) [OF t, of keyed_user] s
    by (simp add: unreachable_env_def keyed_user_def demo_user_def)
qed


section \<open>The claim about the credential vault\<close>







lemma byte_of_nibbles: "char_of (16 * ((of_char b :: nat) div 16) + of_char b mod 16) = b"
  by simp





lemma split_nonempty: "split sep s \<noteq> []"
  by (induction s) (auto split: list.splits)

































end
